theory Spec2Isabelle
  imports Main "HOL-Library.Sublist"
begin

section \<open>Strings of the runtime\<close>

text \<open>
  A JavaScript string is modelled as the list of its Unicode code points, which is what
  the \<^verbatim>\<open>u\<close>-flagged regular expressions, \<^verbatim>\<open>Array.from\<close> and the case
  conversions of the source iterate over. Literals of the source are ASCII and are
  written \<open>lit ''...''\<close>; the one non-ASCII literal (the bullet of the job line) is
  given by its code point.
\<close>

type_synonym cp = nat
type_synonym ustring = "cp list"

definition lit :: "string \<Rightarrow> ustring" where
  "lit s = map of_char s"

text \<open>
  \<^verbatim>\<open>String.prototype.trim\<close> removes the ECMAScript WhiteSpace and LineTerminator
  code points from both ends: TAB, LF, VT, FF, CR, SPACE, NBSP, U+1680,
  U+2000..U+200A, U+2028, U+2029, U+202F, U+205F, U+3000 and U+FEFF.
\<close>

definition isWhiteSpace :: "cp \<Rightarrow> bool" where
  "isWhiteSpace c =
     ((9 \<le> c \<and> c \<le> 13) \<or> c = 32 \<or> c = 160 \<or> c = 5760 \<or> (8192 \<le> c \<and> c \<le> 8202)
      \<or> c = 8232 \<or> c = 8233 \<or> c = 8239 \<or> c = 8287 \<or> c = 12288 \<or> c = 65279)"

definition trimStart :: "ustring \<Rightarrow> ustring" where
  "trimStart s = dropWhile isWhiteSpace s"

definition trimEnd :: "ustring \<Rightarrow> ustring" where
  "trimEnd s = rev (dropWhile isWhiteSpace (rev s))"

definition trim :: "ustring \<Rightarrow> ustring" where
  "trim s = trimEnd (trimStart s)"

text \<open>\<^verbatim>\<open>Array.prototype.join\<close> on an array of strings.\<close>

fun join :: "ustring \<Rightarrow> ustring list \<Rightarrow> ustring" where
  "join d [] = []"
| "join d [x] = x"
| "join d (x # y # r) = x @ d @ join d (y # r)"

text \<open>
  The only way a function of the source can raise is a method call on
  \<^verbatim>\<open>undefined\<close>, the value of an array read out of range; it is a
  \<^verbatim>\<open>TypeError\<close>.
\<close>

datatype error = TypeError

text \<open>\<^verbatim>\<open>xs[0]\<close> followed by a method call: raises when the array is empty.\<close>

definition elem0 :: "'a list \<Rightarrow> error + 'a" where
  "elem0 xs = (case xs of [] \<Rightarrow> Inl TypeError | x # _ \<Rightarrow> Inr x)"

text \<open>\<^verbatim>\<open>Array.prototype.map\<close> with a callback that may raise: the first
  exception leaves the loop.\<close>

fun mapResult :: "('a \<Rightarrow> error + 'b) \<Rightarrow> 'a list \<Rightarrow> error + 'b list" where
  "mapResult f [] = Inr []"
| "mapResult f (x # xs) =
     (case f x of
        Inl e \<Rightarrow> Inl e
      | Inr y \<Rightarrow> (case mapResult f xs of Inl e \<Rightarrow> Inl e | Inr ys \<Rightarrow> Inr (y # ys)))"

section \<open>The Unicode tables of the runtime\<close>

text \<open>
  The character classes \<^verbatim>\<open>\p{L}\<close> and \<^verbatim>\<open>\p{N}\<close> and the locale's case
  conversions belong to the JavaScript runtime, not to the repository; they are
  parameters of the model. The conversions act on whole strings (they may change the
  length of a string and may look at the context of a character).
\<close>

record tables =
  isLetter :: "cp \<Rightarrow> bool"
  isNumber :: "cp \<Rightarrow> bool"
  toLocaleUpperCase :: "ustring \<Rightarrow> ustring"
  toLocaleLowerCase :: "ustring \<Rightarrow> ustring"

definition isAlnum :: "tables \<Rightarrow> cp \<Rightarrow> bool" where
  "isAlnum U c = (isLetter U c \<or> isNumber U c)"

text \<open>The tables of an English-locale runtime on ASCII text, for concrete runs.\<close>

definition asciiUpper :: "cp \<Rightarrow> cp" where
  "asciiUpper c = (if 97 \<le> c \<and> c \<le> 122 then c - 32 else c)"

definition asciiLower :: "cp \<Rightarrow> cp" where
  "asciiLower c = (if 65 \<le> c \<and> c \<le> 90 then c + 32 else c)"

definition asciiTables :: tables where
  "asciiTables =
     \<lparr> isLetter = (\<lambda>c. (65 \<le> c \<and> c \<le> 90) \<or> (97 \<le> c \<and> c \<le> 122)),
       isNumber = (\<lambda>c. 48 \<le> c \<and> c \<le> 57),
       toLocaleUpperCase = map asciiUpper,
       toLocaleLowerCase = map asciiLower \<rparr>"

section \<open>Case converter (App.tsx)\<close>

subsection \<open>splitWords\<close>

text \<open>
  \<^verbatim>\<open>s.split(/[^\p{L}\p{N}]+/u)\<close>: the pieces of \<open>s\<close> between the maximal runs of
  non-alphanumeric code points; a separator at either end leaves an empty piece there,
  and the empty string gives one empty piece. \<open>cur\<close> is the piece being read.
\<close>

function splitNonAlnum :: "tables \<Rightarrow> ustring \<Rightarrow> ustring \<Rightarrow> ustring list" where
  "splitNonAlnum U cur [] = [cur]"
| "splitNonAlnum U cur (c # cs) =
     (if isAlnum U c then splitNonAlnum U (cur @ [c]) cs
      else cur # splitNonAlnum U [] (dropWhile (\<lambda>x. \<not> isAlnum U x) cs))"
  by pat_completeness auto
termination
  by (relation "measure (\<lambda>(U, cur, s). length s)")
     (auto simp: length_dropWhile_le less_Suc_eq_le)

definition splitWords :: "tables \<Rightarrow> ustring \<Rightarrow> ustring list" where
  "splitWords U text = filter (\<lambda>w. w \<noteq> []) (splitNonAlnum U [] (trim text))"

subsection \<open>Replacing the matches of \<^verbatim>\<open>/\p{L}[\p{L}\p{N}]*/gu\<close>\<close>

text \<open>
  \<^verbatim>\<open>String.prototype.replace\<close> with a global regular expression first collects the
  matches from left to right, each as long as possible and the next search starting
  behind the previous match, and then calls the callback on each match in order. A
  code point outside every match is copied.
\<close>

datatype segment = Gap cp | Word ustring

function wordSegments :: "tables \<Rightarrow> ustring \<Rightarrow> segment list" where
  "wordSegments U [] = []"
| "wordSegments U (c # cs) =
     (if isLetter U c
      then Word (c # takeWhile (isAlnum U) cs) # wordSegments U (dropWhile (isAlnum U) cs)
      else Gap c # wordSegments U cs)"
  by pat_completeness auto
termination
  by (relation "measure (\<lambda>(U, s). length s)")
     (auto simp: length_dropWhile_le less_Suc_eq_le)

fun replaceSegments :: "(ustring \<Rightarrow> error + ustring) \<Rightarrow> segment list \<Rightarrow> error + ustring" where
  "replaceSegments fn [] = Inr []"
| "replaceSegments fn (Gap c # r) =
     (case replaceSegments fn r of Inl e \<Rightarrow> Inl e | Inr t \<Rightarrow> Inr (c # t))"
| "replaceSegments fn (Word w # r) =
     (case fn w of
        Inl e \<Rightarrow> Inl e
      | Inr u \<Rightarrow> (case replaceSegments fn r of Inl e \<Rightarrow> Inl e | Inr t \<Rightarrow> Inr (u @ t)))"

definition replaceWords :: "tables \<Rightarrow> (ustring \<Rightarrow> error + ustring) \<Rightarrow> ustring \<Rightarrow> error + ustring" where
  "replaceWords U fn s = replaceSegments fn (wordSegments U s)"

definition preserveWordTransform ::
  "tables \<Rightarrow> ustring \<Rightarrow> (ustring \<Rightarrow> error + ustring) \<Rightarrow> error + ustring" where
  "preserveWordTransform U input fn = replaceWords U (\<lambda>w. fn w) input"

subsection \<open>The transforms\<close>

text \<open>
  The callback of \<^verbatim>\<open>toTitleCase\<close>, \<^verbatim>\<open>toCamelCase\<close> and \<^verbatim>\<open>toPascalCase\<close>:
  \<^verbatim>\<open>chars = Array.from(w.toLocaleLowerCase()); if (!chars.length) return "";
  chars[0] = chars[0].toLocaleUpperCase(); return chars.join("")\<close>.
\<close>

definition capitalizeWord :: "tables \<Rightarrow> ustring \<Rightarrow> error + ustring" where
  "capitalizeWord U w =
     (let chars = toLocaleLowerCase U w in
      if chars = [] then Inr []
      else (case elem0 chars of
              Inl e \<Rightarrow> Inl e
            | Inr c0 \<Rightarrow> Inr (toLocaleUpperCase U [c0] @ tl chars)))"

definition toTitleCase :: "tables \<Rightarrow> ustring \<Rightarrow> error + ustring" where
  "toTitleCase U text = replaceWords U (capitalizeWord U) text"

text \<open>The loop of \<^verbatim>\<open>toSentenceCase\<close> over the code points of the lowercased text,
  with its variable \<^verbatim>\<open>capNext\<close>.\<close>

fun sentenceLoop :: "tables \<Rightarrow> bool \<Rightarrow> ustring \<Rightarrow> ustring" where
  "sentenceLoop U capNext [] = []"
| "sentenceLoop U capNext (ch # rest) =
     (if capNext \<and> isLetter U ch
      then toLocaleUpperCase U [ch] @ sentenceLoop U False rest
      else ch # sentenceLoop U
             (if ch = 46 \<or> ch = 33 \<or> ch = 63 \<or> ch = 10 then True else capNext) rest)"

definition toSentenceCase :: "tables \<Rightarrow> ustring \<Rightarrow> ustring" where
  "toSentenceCase U text = sentenceLoop U True (toLocaleLowerCase U text)"

fun toggleCase :: "tables \<Rightarrow> ustring \<Rightarrow> ustring" where
  "toggleCase U [] = []"
| "toggleCase U (ch # rest) =
     (if \<not> isLetter U ch then ch # toggleCase U rest
      else (if [ch] = toLocaleUpperCase U [ch] then toLocaleLowerCase U [ch]
            else toLocaleUpperCase U [ch]) @ toggleCase U rest)"

text \<open>The loop of \<^verbatim>\<open>alternatingCase\<close> with its variable \<^verbatim>\<open>flip\<close>.\<close>

fun alternatingLoop :: "tables \<Rightarrow> bool \<Rightarrow> ustring \<Rightarrow> ustring" where
  "alternatingLoop U flip [] = []"
| "alternatingLoop U flip (ch # rest) =
     (if \<not> isLetter U ch then ch # alternatingLoop U flip rest
      else (if flip then toLocaleUpperCase U [ch] else toLocaleLowerCase U [ch])
           @ alternatingLoop U (\<not> flip) rest)"

definition alternatingCase :: "tables \<Rightarrow> ustring \<Rightarrow> ustring" where
  "alternatingCase U text = alternatingLoop U False text"

definition toCamelCase :: "tables \<Rightarrow> ustring \<Rightarrow> error + ustring" where
  "toCamelCase U text =
     (let words = splitWords U text in
      if words = [] then Inr []
      else (case elem0 words of
              Inl e \<Rightarrow> Inl e
            | Inr w0 \<Rightarrow>
                (case mapResult (capitalizeWord U) (drop 1 words) of
                   Inl e \<Rightarrow> Inl e
                 | Inr rest \<Rightarrow> Inr (toLocaleLowerCase U w0 @ join [] rest))))"

definition toPascalCase :: "tables \<Rightarrow> ustring \<Rightarrow> error + ustring" where
  "toPascalCase U text =
     (case mapResult (capitalizeWord U) (splitWords U text) of
        Inl e \<Rightarrow> Inl e
      | Inr ws \<Rightarrow> Inr (join [] ws))"

definition toDelimited :: "tables \<Rightarrow> ustring \<Rightarrow> ustring \<Rightarrow> ustring" where
  "toDelimited U text d = join d (map (toLocaleLowerCase U) (splitWords U text))"

definition toSpaceCase :: "tables \<Rightarrow> ustring \<Rightarrow> ustring" where
  "toSpaceCase U text = join (lit '' '') (splitWords U text)"

subsection \<open>computeOutput\<close>

text \<open>The transform key is the string the source compares with \<^verbatim>\<open>===\<close>.\<close>

definition actionKeys :: "string list" where
  "actionKeys = [''upper'', ''lower'', ''title'', ''sentence'', ''toggle'', ''alternating'',
                 ''camel'', ''pascal'', ''snake'', ''kebab'', ''dot'', ''space'']"

definition computeOutput :: "tables \<Rightarrow> ustring \<Rightarrow> bool \<Rightarrow> string \<Rightarrow> error + ustring" where
  "computeOutput U text preserve active =
     (let input = text in
      if active = ''upper'' then
        (if preserve then preserveWordTransform U input (\<lambda>w. Inr (toLocaleUpperCase U w))
         else Inr (toLocaleUpperCase U (trim input)))
      else if active = ''lower'' then
        (if preserve then preserveWordTransform U input (\<lambda>w. Inr (toLocaleLowerCase U w))
         else Inr (toLocaleLowerCase U (trim input)))
      else if active = ''title'' then
        (if preserve then toTitleCase U input else toTitleCase U (trim input))
      else if active = ''sentence'' then
        (if preserve then Inr (toSentenceCase U input) else Inr (toSentenceCase U (trim input)))
      else if active = ''toggle'' then
        (if preserve then Inr (toggleCase U input) else Inr (toggleCase U (trim input)))
      else if active = ''alternating'' then
        (if preserve then Inr (alternatingCase U input)
         else Inr (alternatingCase U (trim input)))
      else if active = ''camel'' then toCamelCase U input
      else if active = ''pascal'' then toPascalCase U input
      else if active = ''snake'' then Inr (toDelimited U input (lit ''_''))
      else if active = ''kebab'' then Inr (toDelimited U input (lit ''-''))
      else if active = ''dot'' then Inr (toDelimited U input (lit ''.''))
      else if active = ''space'' then Inr (toSpaceCase U input)
      else Inr input)"

section \<open>Signature builder\<close>

text \<open>
  A regular expression with the \<^verbatim>\<open>i\<close> flag and without the \<^verbatim>\<open>u\<close> flag compares
  canonicalized characters: a character is replaced by its upper case, except that a
  non-ASCII character is never mapped to an ASCII one. Against the ASCII literals of
  the source this is the comparison of ASCII upper cases.
\<close>

definition canonicalize :: "cp \<Rightarrow> cp" where
  "canonicalize c = (if 97 \<le> c \<and> c \<le> 122 then c - 32 else c)"

text \<open>Matching a literal of a case-insensitive pattern at the start of \<open>v\<close>: the rest
  of \<open>v\<close> behind the match, or \<open>None\<close>.\<close>

fun matchLiteral :: "ustring \<Rightarrow> ustring \<Rightarrow> ustring option" where
  "matchLiteral [] v = Some v"
| "matchLiteral (p # ps) [] = None"
| "matchLiteral (p # ps) (c # cs) =
     (if canonicalize c = canonicalize p then matchLiteral ps cs else None)"

text \<open>\<^verbatim>\<open>/^https?:\/\//i\<close>: the optional \<^verbatim>\<open>s\<close> is tried first, then skipped.\<close>

definition matchHttp :: "ustring \<Rightarrow> ustring option" where
  "matchHttp v =
     (case matchLiteral (lit ''http'') v of
        None \<Rightarrow> None
      | Some r \<Rightarrow>
          (case matchLiteral (lit ''s'') r of
             None \<Rightarrow> matchLiteral (lit ''://'') r
           | Some r' \<Rightarrow>
               (case matchLiteral (lit ''://'') r' of
                  None \<Rightarrow> matchLiteral (lit ''://'') r
                | Some t \<Rightarrow> Some t)))"

text \<open>\<^verbatim>\<open>/^(mailto:|tel:|https?:\/\/)/i.test(v)\<close>\<close>

definition hasScheme :: "ustring \<Rightarrow> bool" where
  "hasScheme v =
     (matchLiteral (lit ''mailto:'') v \<noteq> None \<or> matchLiteral (lit ''tel:'') v \<noteq> None
      \<or> matchHttp v \<noteq> None)"

definition normalizeUrl :: "ustring \<Rightarrow> ustring" where
  "normalizeUrl raw =
     (let v = trim raw in
      if v = [] then []
      else if hasScheme v then v
      else lit ''https://'' @ v)"

text \<open>\<^verbatim>\<open>s.replace(/pat/g, rep)\<close> for a pattern that is a non-empty literal.\<close>

function replaceAll :: "ustring \<Rightarrow> ustring \<Rightarrow> ustring \<Rightarrow> ustring" where
  "replaceAll pat rep [] = []"
| "replaceAll pat rep (c # cs) =
     (if pat \<noteq> [] \<and> prefix pat (c # cs)
      then rep @ replaceAll pat rep (drop (length pat) (c # cs))
      else c # replaceAll pat rep cs)"
  by pat_completeness auto
termination
  by (relation "measure (\<lambda>(pat, rep, s). length s)") (auto simp: neq_Nil_conv)

definition escapeHtml :: "ustring \<Rightarrow> ustring" where
  \<open>escapeHtml str =
     replaceAll [39] (lit ''&#039;'')
       (replaceAll [34] (lit ''&quot;'')
         (replaceAll (lit ''>'') (lit ''&gt;'')
           (replaceAll (lit ''<'') (lit ''&lt;'')
             (replaceAll (lit ''&'') (lit ''&amp;'') str))))\<close>

record FormData =
  firstName :: ustring
  lastName :: ustring
  jobTitle :: ustring
  department :: ustring
  companyName :: ustring
  officePhone :: ustring
  mobilePhone :: ustring
  websiteUrl :: ustring
  emailAddress :: ustring
  address :: ustring
  logoUrl :: ustring
  logoDataUrl :: ustring
  linkedin :: ustring
  facebook :: ustring
  twitter :: ustring
  instagram :: ustring
  whatsapp :: ustring
  legal :: ustring

definition DEFAULTS :: FormData where
  "DEFAULTS =
     \<lparr> firstName = [], lastName = [], jobTitle = [], department = [], companyName = [],
       officePhone = [], mobilePhone = [], websiteUrl = [], emailAddress = [], address = [],
       logoUrl = [], logoDataUrl = [], linkedin = [], facebook = [], twitter = [],
       instagram = [], whatsapp = [], legal = [] \<rparr>"

text \<open>
  The icons are data URIs built once with \<^verbatim>\<open>encodeURIComponent\<close>, a function of the
  runtime: it is the parameter \<open>enc\<close>.
\<close>

definition iconDataUri :: "(ustring \<Rightarrow> ustring) \<Rightarrow> ustring \<Rightarrow> ustring" where
  "iconDataUri enc svg =
     lit ''data:image/svg+xml;charset=utf-8,''
     @ replaceAll (lit ''%20'') (lit '' '') (replaceAll (lit ''%0A'') [] (enc svg))"

definition socialIcon :: "(ustring \<Rightarrow> ustring) \<Rightarrow> ustring \<Rightarrow> ustring \<Rightarrow> ustring \<Rightarrow> ustring" where
  \<open>socialIcon enc stroke txt fontSize =
     iconDataUri enc
       (lit ''\<newline><svg xmlns="http://www.w3.org/2000/svg" width="24" height="24" viewBox="0 0 24 24">\<newline>''
        @ lit ''  <rect x="2.5" y="2.5" width="19" height="19" rx="6" fill="none" stroke="'' @ stroke
        @ lit ''" stroke-width="1.5"/>\<newline>''
        @ lit ''  <text x="12" y="14.1" text-anchor="middle" font-family="Arial, Helvetica, sans-serif" font-size="''
        @ fontSize @ lit ''" font-weight="700" fill="'' @ stroke @ lit ''">'' @ txt @ lit ''</text>\<newline>''
        @ lit ''</svg>'')\<close>

definition makeSocialIcons :: "(ustring \<Rightarrow> ustring) \<Rightarrow> ustring \<Rightarrow> (string \<times> ustring) list" where
  "makeSocialIcons enc stroke =
     [(''linkedin'', socialIcon enc stroke (lit ''in'') (lit ''9'')),
      (''facebook'', socialIcon enc stroke (lit ''f'') (lit ''9'')),
      (''twitter'', socialIcon enc stroke (lit ''X'') (lit ''9'')),
      (''instagram'', socialIcon enc stroke (lit ''ig'') (lit ''9'')),
      (''whatsapp'', socialIcon enc stroke (lit ''wa'') (lit ''8.5''))]"

definition SOCIAL_LIGHT :: "(ustring \<Rightarrow> ustring) \<Rightarrow> (string \<times> ustring) list" where
  "SOCIAL_LIGHT enc = makeSocialIcons enc (lit ''#6b7280'')"

definition SOCIAL_DARK :: "(ustring \<Rightarrow> ustring) \<Rightarrow> (string \<times> ustring) list" where
  "SOCIAL_DARK enc = makeSocialIcons enc (lit ''#cbd5e1'')"

text \<open>\<^verbatim>\<open>SOCIAL[key]\<close> inside a template literal: a missing key reads
  \<^verbatim>\<open>undefined\<close>, which is printed as such.\<close>

definition lookupIcon :: "(string \<times> ustring) list \<Rightarrow> string \<Rightarrow> ustring" where
  "lookupIcon icons key = (case map_of icons key of None \<Rightarrow> lit ''undefined'' | Some v \<Rightarrow> v)"

record BuildOpts =
  theme :: "string option"

text \<open>The constants of \<^verbatim>\<open>buildSignatureHTML\<close> that depend on the theme only.\<close>

definition font :: ustring where
  "font = lit ''Arial, Helvetica, sans-serif''"

definition black :: "string \<Rightarrow> ustring" where
  "black th = (if th = ''dark'' then lit ''#f8fafc'' else lit ''#111827'')"

definition gray600 :: "string \<Rightarrow> ustring" where
  "gray600 th = (if th = ''dark'' then lit ''#e5e7eb'' else lit ''#4b5563'')"

definition gray500 :: "string \<Rightarrow> ustring" where
  "gray500 th = (if th = ''dark'' then lit ''#cbd5e1'' else lit ''#6b7280'')"

definition gray400 :: "string \<Rightarrow> ustring" where
  "gray400 th = (if th = ''dark'' then lit ''#94a3b8'' else lit ''#9ca3af'')"

definition baseTd :: ustring where
  "baseTd = lit ''font-family:'' @ font
     @ lit ''; text-align:left; mso-line-height-rule:exactly; -webkit-text-size-adjust:100%; -ms-text-size-adjust:100%;''"

definition row :: "string \<Rightarrow> ustring \<Rightarrow> ustring" where
  \<open>row th html =
     (if html = [] then []
      else lit ''\<newline><tr>\<newline>''
         @ lit ''  <td style="padding:2px 0; '' @ baseTd
         @ lit '' font-size:14px; line-height:18px; color:'' @ gray600 th @ lit '';">'' @ html
         @ lit ''</td>\<newline>''
         @ lit ''</tr>'')\<close>

definition officeHtml :: "string \<Rightarrow> ustring \<Rightarrow> ustring" where
  \<open>officeHtml th officePhone' =
     (if officePhone' \<noteq> []
      then lit ''<span style="color:'' @ gray500 th @ lit '';">Office:</span> <a href="tel:''
         @ escapeHtml officePhone' @ lit ''" style="color:'' @ gray600 th
         @ lit ''; text-decoration:none;">'' @ escapeHtml officePhone' @ lit ''</a>''
      else [])\<close>

definition mobileHtml :: "string \<Rightarrow> ustring \<Rightarrow> ustring" where
  \<open>mobileHtml th mobilePhone' =
     (if mobilePhone' \<noteq> []
      then lit ''<span style="color:'' @ gray500 th @ lit '';">Mobile:</span> <a href="tel:''
         @ escapeHtml mobilePhone' @ lit ''" style="color:'' @ gray600 th
         @ lit ''; text-decoration:none;">'' @ escapeHtml mobilePhone' @ lit ''</a>''
      else [])\<close>

definition emailHtml :: "string \<Rightarrow> ustring \<Rightarrow> ustring" where
  \<open>emailHtml th email =
     (if email \<noteq> []
      then lit ''<a href="mailto:'' @ escapeHtml email @ lit ''" style="color:'' @ gray600 th
         @ lit ''; text-decoration:none;">'' @ escapeHtml email @ lit ''</a>''
      else [])\<close>

text \<open>\<^verbatim>\<open>website.replace(/^https?:\/\//i, "")\<close>\<close>

definition stripProtocol :: "ustring \<Rightarrow> ustring" where
  "stripProtocol website = (case matchHttp website of None \<Rightarrow> website | Some t \<Rightarrow> t)"

definition webHtml :: "string \<Rightarrow> ustring \<Rightarrow> ustring" where
  \<open>webHtml th website =
     (if website \<noteq> []
      then lit ''<a href="'' @ escapeHtml website @ lit ''" style="color:'' @ gray600 th
         @ lit ''; text-decoration:none;">'' @ escapeHtml (stripProtocol website) @ lit ''</a>''
      else [])\<close>

definition addressHtml :: "string \<Rightarrow> ustring \<Rightarrow> ustring" where
  \<open>addressHtml th address' =
     (if address' \<noteq> []
      then lit ''<span style="color:'' @ gray600 th @ lit '';">'' @ escapeHtml address'
         @ lit ''</span>''
      else [])\<close>

text \<open>An entry of \<^verbatim>\<open>socials\<close>: key, label and normalized URL.\<close>

type_synonym social = "string \<times> ustring \<times> ustring"

definition socialCell :: "(string \<times> ustring) list \<Rightarrow> social \<Rightarrow> ustring" where
  \<open>socialCell SOCIAL s =
     (case s of (key, label, url) \<Rightarrow>
        lit ''<td style="padding-right:8px;"><a href="'' @ escapeHtml url
        @ lit ''" style="text-decoration:none;" target="_blank" rel="noopener noreferrer"><img src="''
        @ lookupIcon SOCIAL key
        @ lit ''" width="24" height="24" style="display:block; border:0; outline:none; text-decoration:none;" alt="''
        @ escapeHtml label @ lit ''" /></a></td>'')\<close>

definition socialsRow :: "(string \<times> ustring) list \<Rightarrow> social list \<Rightarrow> ustring" where
  \<open>socialsRow SOCIAL socials =
     (if length socials > 0
      then lit ''\<newline><tr>\<newline>''
         @ lit ''  <td style="padding-top:10px; '' @ baseTd @ lit ''">\<newline>''
         @ lit ''    <table role="presentation" cellpadding="0" cellspacing="0" border="0" style="border-collapse:collapse; ''
         @ baseTd @ lit ''">\<newline>''
         @ lit ''      <tr>\<newline>''
         @ lit ''        '' @ join [] (map (socialCell SOCIAL) socials) @ lit ''\<newline>''
         @ lit ''      </tr>\<newline>''
         @ lit ''    </table>\<newline>''
         @ lit ''  </td>\<newline>''
         @ lit ''</tr>''
      else [])\<close>

text \<open>The three lines of the header; the source writes them out in both branches of
  \<^verbatim>\<open>headerBlock\<close>.\<close>

definition nameDiv :: "string \<Rightarrow> ustring \<Rightarrow> ustring" where
  \<open>nameDiv th fullName =
     (if fullName \<noteq> []
      then lit ''<div style="'' @ baseTd
         @ lit '' font-size:18px; line-height:22px; font-weight:700; color:'' @ black th
         @ lit '';">'' @ escapeHtml fullName @ lit ''</div>''
      else [])\<close>

definition jobDiv :: "string \<Rightarrow> ustring \<Rightarrow> ustring" where
  \<open>jobDiv th jobLine =
     (if jobLine \<noteq> []
      then lit ''<div style="'' @ baseTd
         @ lit '' padding-top:2px; font-size:14px; line-height:18px; color:'' @ gray600 th
         @ lit '';">'' @ escapeHtml jobLine @ lit ''</div>''
      else [])\<close>

definition companyDiv :: "string \<Rightarrow> ustring \<Rightarrow> ustring" where
  \<open>companyDiv th company =
     (if company \<noteq> []
      then lit ''<div style="'' @ baseTd
         @ lit '' padding-top:2px; font-size:14px; line-height:18px; color:'' @ gray400 th
         @ lit '';">'' @ escapeHtml company @ lit ''</div>''
      else [])\<close>

definition headerBlock :: "string \<Rightarrow> ustring \<Rightarrow> ustring \<Rightarrow> ustring \<Rightarrow> ustring \<Rightarrow> ustring" where
  \<open>headerBlock th logoSrc fullName jobLine company =
     (if logoSrc \<noteq> []
      then lit ''\<newline><table role="presentation" cellpadding="0" cellspacing="0" border="0" style="border-collapse:collapse; ''
         @ baseTd @ lit ''">\<newline>''
         @ lit ''  <tr>\<newline>''
         @ lit ''    <td style="vertical-align:top; padding-right:12px;">\<newline>''
         @ lit ''      <img src="'' @ escapeHtml logoSrc
         @ lit ''" width="48" height="48" style="display:block; border:0; outline:none; text-decoration:none; border-radius:10px;" alt="" />\<newline>''
         @ lit ''    </td>\<newline>''
         @ lit ''    <td style="vertical-align:top; '' @ baseTd @ lit ''">\<newline>''
         @ lit ''      '' @ nameDiv th fullName @ lit ''\<newline>''
         @ lit ''      '' @ jobDiv th jobLine @ lit ''\<newline>''
         @ lit ''      '' @ companyDiv th company @ lit ''\<newline>''
         @ lit ''    </td>\<newline>''
         @ lit ''  </tr>\<newline>''
         @ lit ''</table>''
      else lit ''\<newline>'' @ nameDiv th fullName @ lit ''\<newline>''
         @ jobDiv th jobLine @ lit ''\<newline>''
         @ companyDiv th company)\<close>

definition legalBlock :: "string \<Rightarrow> ustring \<Rightarrow> ustring" where
  \<open>legalBlock th legal' =
     (if legal' \<noteq> []
      then lit ''\<newline><tr>\<newline>''
         @ lit ''  <td style="padding-top:12px; '' @ baseTd
         @ lit '' font-size:11px; line-height:15px; color:'' @ gray400 th
         @ lit ''; max-width:420px;">''
         @ replaceAll (lit ''\<newline>'') (lit ''<br/>'') (escapeHtml legal')
         @ lit ''</td>\<newline>''
         @ lit ''</tr>''
      else [])\<close>

definition buildSignatureHTML :: "(ustring \<Rightarrow> ustring) \<Rightarrow> FormData \<Rightarrow> BuildOpts \<Rightarrow> ustring" where
  \<open>buildSignatureHTML enc data opts =
     (let th = (if theme opts = Some ''dark'' then ''dark'' else ''light'');
          SOCIAL = (if th = ''dark'' then SOCIAL_DARK enc else SOCIAL_LIGHT enc);
          fullName = trim (join (lit '' '')
                       (filter (\<lambda>s. s \<noteq> []) [firstName data, lastName data]));
          jobLine = trim (join [32, 8226, 32]
                       (filter (\<lambda>s. s \<noteq> []) [jobTitle data, department data]));
          company = trim (companyName data);
          officePhone' = trim (officePhone data);
          mobilePhone' = trim (mobilePhone data);
          email = trim (emailAddress data);
          websiteUrl' = trim (websiteUrl data);
          address' = trim (address data);
          logoSrc = (if trim (logoDataUrl data) \<noteq> [] then trim (logoDataUrl data)
                     else if trim (logoUrl data) \<noteq> [] then normalizeUrl (logoUrl data)
                     else []);
          website = (if websiteUrl' \<noteq> [] then normalizeUrl websiteUrl' else []);
          socials = filter (\<lambda>(key, label, url). url \<noteq> [])
                      [(''linkedin'', lit ''LinkedIn'', normalizeUrl (linkedin data)),
                       (''facebook'', lit ''Facebook'', normalizeUrl (facebook data)),
                       (''twitter'', lit ''X'', normalizeUrl (twitter data)),
                       (''instagram'', lit ''Instagram'', normalizeUrl (instagram data)),
                       (''whatsapp'', lit ''WhatsApp'', normalizeUrl (whatsapp data))];
          legal' = trim (legal data)
      in trim
          (lit ''\<newline>''
           @ lit ''<table role="presentation" cellpadding="0" cellspacing="0" border="0" style="border-collapse:collapse; ''
           @ baseTd @ lit ''">\<newline>''
           @ lit ''  <tr>\<newline>''
           @ lit ''    <td style="padding:0; '' @ baseTd @ lit ''">\<newline>''
           @ lit ''      <table role="presentation" cellpadding="0" cellspacing="0" border="0" style="border-collapse:collapse; ''
           @ baseTd @ lit ''">\<newline>''
           @ lit ''        <tr>\<newline>''
           @ lit ''          <td style="padding:0; '' @ baseTd @ lit ''">''
           @ headerBlock th logoSrc fullName jobLine company @ lit ''</td>\<newline>''
           @ lit ''        </tr>\<newline>''
           @ lit ''\<newline>''
           @ lit ''        <tr>\<newline>''
           @ lit ''          <td style="padding-top:10px; '' @ baseTd @ lit ''">\<newline>''
           @ lit ''            <table role="presentation" cellpadding="0" cellspacing="0" border="0" style="border-collapse:collapse; ''
           @ baseTd @ lit ''">\<newline>''
           @ lit ''              '' @ row th (officeHtml th officePhone') @ lit ''\<newline>''
           @ lit ''              '' @ row th (mobileHtml th mobilePhone') @ lit ''\<newline>''
           @ lit ''              '' @ row th (emailHtml th email) @ lit ''\<newline>''
           @ lit ''              '' @ row th (webHtml th website) @ lit ''\<newline>''
           @ lit ''              '' @ row th (addressHtml th address') @ lit ''\<newline>''
           @ lit ''            </table>\<newline>''
           @ lit ''          </td>\<newline>''
           @ lit ''        </tr>\<newline>''
           @ lit ''\<newline>''
           @ lit ''        '' @ socialsRow SOCIAL socials @ lit ''\<newline>''
           @ lit ''\<newline>''
           @ lit ''        '' @ legalBlock th legal' @ lit ''\<newline>''
           @ lit ''      </table>\<newline>''
           @ lit ''    </td>\<newline>''
           @ lit ''  </tr>\<newline>''
           @ lit ''</table>''
           @ lit ''\<newline>''))\<close>

section \<open>Notions used in the statements\<close>

text \<open>
  The word tokens of a text are described by a segmentation into \<open>Word\<close> and \<open>Gap\<close>
  segments. \<open>mapWords f\<close> applies \<open>f\<close> to the words and leaves the other characters in
  place; \<open>flatten\<close> gives the text back.
\<close>

fun segmentText :: "(ustring \<Rightarrow> ustring) \<Rightarrow> segment \<Rightarrow> ustring" where
  "segmentText f (Gap c) = [c]"
| "segmentText f (Word w) = f w"

definition mapWords :: "(ustring \<Rightarrow> ustring) \<Rightarrow> segment list \<Rightarrow> ustring" where
  "mapWords f segs = concat (map (segmentText f) segs)"

definition flatten :: "segment list \<Rightarrow> ustring" where
  "flatten segs = mapWords (\<lambda>w. w) segs"

definition startsWithLetter :: "tables \<Rightarrow> ustring \<Rightarrow> bool" where
  "startsWithLetter U w = (case w of [] \<Rightarrow> False | c # _ \<Rightarrow> isLetter U c)"

text \<open>
  Following the specification's words, a segmentation is a tokenization into word tokens,
  ``maximal runs of letters and digits starting with a letter'', when every word starts
  with a letter and consists of letters and digits, a word is followed by the end of the
  text or by a character that is neither a letter nor a digit, and no character outside
  the words is a letter (so that no word can be extended and every letter lies in a word).
\<close>

fun wordTokenization :: "tables \<Rightarrow> segment list \<Rightarrow> bool" where
  "wordTokenization U [] = True"
| "wordTokenization U (Gap c # r) = (\<not> isLetter U c \<and> wordTokenization U r)"
| "wordTokenization U (Word w # r) =
     (startsWithLetter U w \<and> list_all (isAlnum U) w
      \<and> (case r of [] \<Rightarrow> True | Gap g # _ \<Rightarrow> \<not> isAlnum U g | Word _ # _ \<Rightarrow> False)
      \<and> wordTokenization U r)"

text \<open>A word in lower case with its first code point in upper case.\<close>

definition capitalized :: "tables \<Rightarrow> ustring \<Rightarrow> ustring" where
  "capitalized U w =
     (case toLocaleLowerCase U w of [] \<Rightarrow> [] | c # cs \<Rightarrow> toLocaleUpperCase U [c] @ cs)"

text \<open>
  Following the specification's words, the tokens ``obtained by splitting the input on any
  run of non-alphanumeric characters, empty tokens discarded'': the maximal runs of
  letters and digits of the text.
\<close>

function alnumRuns :: "tables \<Rightarrow> ustring \<Rightarrow> ustring list" where
  "alnumRuns U [] = []"
| "alnumRuns U (c # cs) =
     (if isAlnum U c
      then (c # takeWhile (isAlnum U) cs) # alnumRuns U (dropWhile (isAlnum U) cs)
      else alnumRuns U cs)"
  by pat_completeness auto
termination
  by (relation "measure (\<lambda>(U, s). length s)")
     (auto simp: length_dropWhile_le less_Suc_eq_le)

text \<open>The number of positions of a text at which a pattern occurs.\<close>

fun occurrences :: "ustring \<Rightarrow> ustring \<Rightarrow> nat" where
  "occurrences pat [] = (if pat = [] then 1 else 0)"
| "occurrences pat (c # cs) = (if prefix pat (c # cs) then 1 else 0) + occurrences pat cs"

text \<open>
  Following the specification's words, the escaper replaces the five characters
  \<^verbatim>\<open>& < > " '\<close> by their named entities and keeps every other character.
\<close>

definition escapeChar :: "cp \<Rightarrow> ustring" where
  \<open>escapeChar c =
     (if c = 38 then lit ''&amp;''
      else if c = 60 then lit ''&lt;''
      else if c = 62 then lit ''&gt;''
      else if c = 34 then lit ''&quot;''
      else if c = 39 then lit ''&#039;''
      else [c])\<close>

text \<open>The lines of a text, split at the line feeds.\<close>

fun splitLines :: "ustring \<Rightarrow> ustring list" where
  "splitLines [] = [[]]"
| "splitLines (c # cs) =
     (if c = 10 then [] # splitLines cs
      else (case splitLines cs of [] \<Rightarrow> [[c]] | l # ls \<Rightarrow> (c # l) # ls))"

text \<open>
  The generated document as a template with holes: \<open>Markup\<close> is text of the template,
  \<open>Value\<close> a value put into it. The layout functions below repeat the template of
  \<^verbatim>\<open>buildSignatureHTML\<close> with the type of values left open, so that they can neither
  look into a value nor produce one; \<open>render\<close> applies the escaper to every value.
  An absent value is \<open>None\<close>; the lines of the legal text are separate values, joined by
  \<^verbatim>\<open><br/>\<close> elements of the markup.
\<close>

datatype 'v piece = Markup ustring | Value 'v

fun renderPiece :: "('v \<Rightarrow> ustring) \<Rightarrow> 'v piece \<Rightarrow> ustring" where
  "renderPiece esc (Markup m) = m"
| "renderPiece esc (Value v) = esc v"

definition render :: "('v \<Rightarrow> ustring) \<Rightarrow> 'v piece list \<Rightarrow> ustring" where
  "render esc ps = concat (map (renderPiece esc) ps)"

definition present :: "ustring \<Rightarrow> ustring option" where
  "present v = (if v = [] then None else Some v)"

definition rowLayout :: "string \<Rightarrow> 'v piece list \<Rightarrow> 'v piece list" where
  \<open>rowLayout th html =
     (if html = [] then []
      else [Markup (lit ''\<newline><tr>\<newline>''
              @ lit ''  <td style="padding:2px 0; '' @ baseTd
              @ lit '' font-size:14px; line-height:18px; color:'' @ gray600 th @ lit '';">'')]
           @ html
           @ [Markup (lit ''</td>\<newline>'' @ lit ''</tr>'')])\<close>

definition officeLayout :: "string \<Rightarrow> 'v option \<Rightarrow> 'v piece list" where
  \<open>officeLayout th officePhone' =
     (case officePhone' of
        None \<Rightarrow> []
      | Some v \<Rightarrow>
          [Markup (lit ''<span style="color:'' @ gray500 th
                   @ lit '';">Office:</span> <a href="tel:''),
           Value v,
           Markup (lit ''" style="color:'' @ gray600 th @ lit ''; text-decoration:none;">''),
           Value v,
           Markup (lit ''</a>'')])\<close>

definition mobileLayout :: "string \<Rightarrow> 'v option \<Rightarrow> 'v piece list" where
  \<open>mobileLayout th mobilePhone' =
     (case mobilePhone' of
        None \<Rightarrow> []
      | Some v \<Rightarrow>
          [Markup (lit ''<span style="color:'' @ gray500 th
                   @ lit '';">Mobile:</span> <a href="tel:''),
           Value v,
           Markup (lit ''" style="color:'' @ gray600 th @ lit ''; text-decoration:none;">''),
           Value v,
           Markup (lit ''</a>'')])\<close>

definition emailLayout :: "string \<Rightarrow> 'v option \<Rightarrow> 'v piece list" where
  \<open>emailLayout th email =
     (case email of
        None \<Rightarrow> []
      | Some v \<Rightarrow>
          [Markup (lit ''<a href="mailto:''),
           Value v,
           Markup (lit ''" style="color:'' @ gray600 th @ lit ''; text-decoration:none;">''),
           Value v,
           Markup (lit ''</a>'')])\<close>

definition webLayout :: "string \<Rightarrow> ('v \<times> 'v) option \<Rightarrow> 'v piece list" where
  \<open>webLayout th website =
     (case website of
        None \<Rightarrow> []
      | Some (href, shown) \<Rightarrow>
          [Markup (lit ''<a href="''),
           Value href,
           Markup (lit ''" style="color:'' @ gray600 th @ lit ''; text-decoration:none;">''),
           Value shown,
           Markup (lit ''</a>'')])\<close>

definition addressLayout :: "string \<Rightarrow> 'v option \<Rightarrow> 'v piece list" where
  \<open>addressLayout th address' =
     (case address' of
        None \<Rightarrow> []
      | Some v \<Rightarrow>
          [Markup (lit ''<span style="color:'' @ gray600 th @ lit '';">''),
           Value v,
           Markup (lit ''</span>'')])\<close>

definition socialCellLayout :: "(string \<times> ustring) list \<Rightarrow> string \<times> 'v \<times> 'v \<Rightarrow> 'v piece list" where
  \<open>socialCellLayout SOCIAL s =
     (case s of (key, label, url) \<Rightarrow>
        [Markup (lit ''<td style="padding-right:8px;"><a href="''),
         Value url,
         Markup (lit ''" style="text-decoration:none;" target="_blank" rel="noopener noreferrer"><img src="''
                 @ lookupIcon SOCIAL key
                 @ lit ''" width="24" height="24" style="display:block; border:0; outline:none; text-decoration:none;" alt="''),
         Value label,
         Markup (lit ''" /></a></td>'')])\<close>

definition socialsLayout :: "(string \<times> ustring) list \<Rightarrow> (string \<times> 'v \<times> 'v) list \<Rightarrow> 'v piece list" where
  \<open>socialsLayout SOCIAL socials =
     (if socials = [] then []
      else [Markup (lit ''\<newline><tr>\<newline>''
              @ lit ''  <td style="padding-top:10px; '' @ baseTd @ lit ''">\<newline>''
              @ lit ''    <table role="presentation" cellpadding="0" cellspacing="0" border="0" style="border-collapse:collapse; ''
              @ baseTd @ lit ''">\<newline>''
              @ lit ''      <tr>\<newline>''
              @ lit ''        '')]
           @ concat (map (socialCellLayout SOCIAL) socials)
           @ [Markup (lit ''\<newline>''
              @ lit ''      </tr>\<newline>''
              @ lit ''    </table>\<newline>''
              @ lit ''  </td>\<newline>''
              @ lit ''</tr>'')])\<close>

definition nameLayout :: "string \<Rightarrow> 'v option \<Rightarrow> 'v piece list" where
  \<open>nameLayout th fullName =
     (case fullName of
        None \<Rightarrow> []
      | Some v \<Rightarrow>
          [Markup (lit ''<div style="'' @ baseTd
                   @ lit '' font-size:18px; line-height:22px; font-weight:700; color:'' @ black th
                   @ lit '';">''),
           Value v,
           Markup (lit ''</div>'')])\<close>

definition jobLayout :: "string \<Rightarrow> 'v option \<Rightarrow> 'v piece list" where
  \<open>jobLayout th jobLine =
     (case jobLine of
        None \<Rightarrow> []
      | Some v \<Rightarrow>
          [Markup (lit ''<div style="'' @ baseTd
                   @ lit '' padding-top:2px; font-size:14px; line-height:18px; color:'' @ gray600 th
                   @ lit '';">''),
           Value v,
           Markup (lit ''</div>'')])\<close>

definition companyLayout :: "string \<Rightarrow> 'v option \<Rightarrow> 'v piece list" where
  \<open>companyLayout th company =
     (case company of
        None \<Rightarrow> []
      | Some v \<Rightarrow>
          [Markup (lit ''<div style="'' @ baseTd
                   @ lit '' padding-top:2px; font-size:14px; line-height:18px; color:'' @ gray400 th
                   @ lit '';">''),
           Value v,
           Markup (lit ''</div>'')])\<close>

definition headerLayout ::
  "string \<Rightarrow> 'v option \<Rightarrow> 'v option \<Rightarrow> 'v option \<Rightarrow> 'v option \<Rightarrow> 'v piece list" where
  \<open>headerLayout th logoSrc fullName jobLine company =
     (case logoSrc of
        Some logo \<Rightarrow>
          [Markup (lit ''\<newline><table role="presentation" cellpadding="0" cellspacing="0" border="0" style="border-collapse:collapse; ''
                   @ baseTd @ lit ''">\<newline>''
                   @ lit ''  <tr>\<newline>''
                   @ lit ''    <td style="vertical-align:top; padding-right:12px;">\<newline>''
                   @ lit ''      <img src="''),
           Value logo,
           Markup (lit ''" width="48" height="48" style="display:block; border:0; outline:none; text-decoration:none; border-radius:10px;" alt="" />\<newline>''
                   @ lit ''    </td>\<newline>''
                   @ lit ''    <td style="vertical-align:top; '' @ baseTd @ lit ''">\<newline>''
                   @ lit ''      '')]
          @ nameLayout th fullName
          @ [Markup (lit ''\<newline>'' @ lit ''      '')]
          @ jobLayout th jobLine
          @ [Markup (lit ''\<newline>'' @ lit ''      '')]
          @ companyLayout th company
          @ [Markup (lit ''\<newline>''
                   @ lit ''    </td>\<newline>''
                   @ lit ''  </tr>\<newline>''
                   @ lit ''</table>'')]
      | None \<Rightarrow>
          [Markup (lit ''\<newline>'')] @ nameLayout th fullName
          @ [Markup (lit ''\<newline>'')] @ jobLayout th jobLine
          @ [Markup (lit ''\<newline>'')] @ companyLayout th company)\<close>

fun brLines :: "'v list \<Rightarrow> 'v piece list" where
  \<open>brLines [] = []\<close>
| \<open>brLines [l] = [Value l]\<close>
| \<open>brLines (l # k # ls) = Value l # Markup (lit ''<br/>'') # brLines (k # ls)\<close>

definition legalLayout :: "string \<Rightarrow> 'v list \<Rightarrow> 'v piece list" where
  \<open>legalLayout th legalLines =
     (if legalLines = [] then []
      else [Markup (lit ''\<newline><tr>\<newline>''
              @ lit ''  <td style="padding-top:12px; '' @ baseTd
              @ lit '' font-size:11px; line-height:15px; color:'' @ gray400 th
              @ lit ''; max-width:420px;">'')]
           @ brLines legalLines
           @ [Markup (lit ''</td>\<newline>'' @ lit ''</tr>'')])\<close>

definition signatureLayout ::
  "string \<Rightarrow> (string \<times> ustring) list \<Rightarrow> 'v option \<Rightarrow> 'v option \<Rightarrow> 'v option \<Rightarrow> 'v option
   \<Rightarrow> 'v option \<Rightarrow> 'v option \<Rightarrow> 'v option \<Rightarrow> ('v \<times> 'v) option \<Rightarrow> 'v option
   \<Rightarrow> (string \<times> 'v \<times> 'v) list \<Rightarrow> 'v list \<Rightarrow> 'v piece list" where
  \<open>signatureLayout th SOCIAL logoSrc fullName jobLine company officePhone' mobilePhone' email
     website address' socials legalLines =
     [Markup (lit ''<table role="presentation" cellpadding="0" cellspacing="0" border="0" style="border-collapse:collapse; ''
        @ baseTd @ lit ''">\<newline>''
        @ lit ''  <tr>\<newline>''
        @ lit ''    <td style="padding:0; '' @ baseTd @ lit ''">\<newline>''
        @ lit ''      <table role="presentation" cellpadding="0" cellspacing="0" border="0" style="border-collapse:collapse; ''
        @ baseTd @ lit ''">\<newline>''
        @ lit ''        <tr>\<newline>''
        @ lit ''          <td style="padding:0; '' @ baseTd @ lit ''">'')]
     @ headerLayout th logoSrc fullName jobLine company
     @ [Markup (lit ''</td>\<newline>''
        @ lit ''        </tr>\<newline>''
        @ lit ''\<newline>''
        @ lit ''        <tr>\<newline>''
        @ lit ''          <td style="padding-top:10px; '' @ baseTd @ lit ''">\<newline>''
        @ lit ''            <table role="presentation" cellpadding="0" cellspacing="0" border="0" style="border-collapse:collapse; ''
        @ baseTd @ lit ''">\<newline>''
        @ lit ''              '')]
     @ rowLayout th (officeLayout th officePhone')
     @ [Markup (lit ''\<newline>'' @ lit ''              '')]
     @ rowLayout th (mobileLayout th mobilePhone')
     @ [Markup (lit ''\<newline>'' @ lit ''              '')]
     @ rowLayout th (emailLayout th email)
     @ [Markup (lit ''\<newline>'' @ lit ''              '')]
     @ rowLayout th (webLayout th website)
     @ [Markup (lit ''\<newline>'' @ lit ''              '')]
     @ rowLayout th (addressLayout th address')
     @ [Markup (lit ''\<newline>''
        @ lit ''            </table>\<newline>''
        @ lit ''          </td>\<newline>''
        @ lit ''        </tr>\<newline>''
        @ lit ''\<newline>''
        @ lit ''        '')]
     @ socialsLayout SOCIAL socials
     @ [Markup (lit ''\<newline>'' @ lit ''\<newline>'' @ lit ''        '')]
     @ legalLayout th legalLines
     @ [Markup (lit ''\<newline>''
        @ lit ''      </table>\<newline>''
        @ lit ''    </td>\<newline>''
        @ lit ''  </tr>\<newline>''
        @ lit ''</table>'')]\<close>

text \<open>The layout of \<^verbatim>\<open>buildSignatureHTML\<close> for a record: the holes are filled with the
  values the source derives from the fields.\<close>

definition signaturePieces :: "(ustring \<Rightarrow> ustring) \<Rightarrow> FormData \<Rightarrow> BuildOpts \<Rightarrow> ustring piece list" where
  \<open>signaturePieces enc data opts =
     (let th = (if theme opts = Some ''dark'' then ''dark'' else ''light'');
          SOCIAL = (if th = ''dark'' then SOCIAL_DARK enc else SOCIAL_LIGHT enc);
          fullName = trim (join (lit '' '')
                       (filter (\<lambda>s. s \<noteq> []) [firstName data, lastName data]));
          jobLine = trim (join [32, 8226, 32]
                       (filter (\<lambda>s. s \<noteq> []) [jobTitle data, department data]));
          logoSrc = (if trim (logoDataUrl data) \<noteq> [] then trim (logoDataUrl data)
                     else if trim (logoUrl data) \<noteq> [] then normalizeUrl (logoUrl data)
                     else []);
          website = (if trim (websiteUrl data) \<noteq> [] then normalizeUrl (trim (websiteUrl data))
                     else []);
          socials = filter (\<lambda>(key, label, url). url \<noteq> [])
                      [(''linkedin'', lit ''LinkedIn'', normalizeUrl (linkedin data)),
                       (''facebook'', lit ''Facebook'', normalizeUrl (facebook data)),
                       (''twitter'', lit ''X'', normalizeUrl (twitter data)),
                       (''instagram'', lit ''Instagram'', normalizeUrl (instagram data)),
                       (''whatsapp'', lit ''WhatsApp'', normalizeUrl (whatsapp data))]
      in signatureLayout th SOCIAL (present logoSrc) (present fullName) (present jobLine)
           (present (trim (companyName data))) (present (trim (officePhone data)))
           (present (trim (mobilePhone data))) (present (trim (emailAddress data)))
           (if website = [] then None else Some (website, stripProtocol website))
           (present (trim (address data))) socials
           (if trim (legal data) = [] then [] else splitLines (trim (legal data))))\<close>

text \<open>Following the specification's words: ``starts with \<open>p\<close>, case-insensitively'',
  and the four prefixes it lists.\<close>

definition startsWithIgnoringCase :: "ustring \<Rightarrow> ustring \<Rightarrow> bool" where
  "startsWithIgnoringCase p v = prefix (map asciiLower p) (map asciiLower v)"

definition knownSchemes :: "ustring list" where
  "knownSchemes = [lit ''mailto:'', lit ''tel:'', lit ''http://'', lit ''https://'']"

text \<open>A token of escaped text: one of the five entities, or one character other than
  the five.\<close>

definition entities :: "ustring list" where
  \<open>entities = [lit ''&amp;'', lit ''&lt;'', lit ''&gt;'', lit ''&quot;'', lit ''&#039;'']\<close>

definition plainChar :: "cp \<Rightarrow> bool" where
  "plainChar c = (c \<noteq> 38 \<and> c \<noteq> 60 \<and> c \<noteq> 62 \<and> c \<noteq> 34 \<and> c \<noteq> 39)"

definition escapedToken :: "ustring \<Rightarrow> bool" where
  "escapedToken t = (t \<in> set entities \<or> (case t of [c] \<Rightarrow> plainChar c | _ \<Rightarrow> False))"

definition alex :: FormData where
  "alex = DEFAULTS \<lparr> firstName := lit ''Alex'', lastName := lit ''Johnson'',
                      emailAddress := lit ''a@b.com'' \<rparr>"

text \<open>The record of the scenario, only three fields set, and the document expected for
  it: a name line, the e-mail row, and nothing else filled in.\<close>

definition alexLayout :: "string \<Rightarrow> ustring piece list" where
  "alexLayout th =
     signatureLayout th [] None (Some (lit ''Alex Johnson'')) None None None None
       (Some (lit ''a@b.com'')) None None [] []"

text \<open>The same count with an accumulator, used to evaluate it on a long text.\<close>

fun countFrom :: "'a list \<Rightarrow> nat \<Rightarrow> 'a list \<Rightarrow> nat" where
  "countFrom pat n [] = n"
| "countFrom pat n (c # cs) = countFrom pat (if prefix pat (c # cs) then Suc n else n) cs"

section \<open>Properties of the case converter\<close>

lemma takeWhile_append_stop:
  "t = [] \<or> \<not> P (hd t) \<Longrightarrow> takeWhile P (s @ t) = takeWhile P s"
  by (induction s) (auto simp: takeWhile_eq_Nil_iff neq_Nil_conv)

lemma dropWhile_append_stop:
  "t = [] \<or> \<not> P (hd t) \<Longrightarrow> dropWhile P (s @ t) = dropWhile P s @ t"
  by (induction s) (auto simp: dropWhile_eq_self_iff neq_Nil_conv)

lemma dropWhile_stops: "dropWhile P s = [] \<or> \<not> P (hd (dropWhile P s))"
  using hd_dropWhile [of P s] by blast

lemma elem0_Cons: "elem0 (x # xs) = Inr x"
  by (simp add: elem0_def)

lemma capitalizeWord_returns: "\<exists>u. capitalizeWord U w = Inr u"
  by (cases "toLocaleLowerCase U w") (simp_all add: capitalizeWord_def Let_def elem0_def)

lemma mapResult_returns:
  assumes "\<And>x. \<exists>y. f x = Inr y"
  shows "\<exists>ys. mapResult f xs = Inr ys"
proof (induction xs)
  case Nil
  show ?case by simp
next
  case (Cons x xs)
  from assms obtain y where "f x = Inr y" by blast
  moreover from Cons obtain ys where "mapResult f xs = Inr ys" by blast
  ultimately show ?case by simp
qed

lemma replaceSegments_returns:
  assumes "\<And>w. \<exists>u. fn w = Inr u"
  shows "\<exists>t. replaceSegments fn segs = Inr t"
proof (induction segs)
  case Nil
  show ?case by simp
next
  case (Cons seg segs)
  then obtain t where t: "replaceSegments fn segs = Inr t" by blast
  show ?case
  proof (cases seg)
    case (Gap c)
    with t show ?thesis by simp
  next
    case (Word w)
    from assms obtain u where "fn w = Inr u" by blast
    with t Word show ?thesis by simp
  qed
qed

lemma toCamelCase_returns: "\<exists>s. toCamelCase U text = Inr s"
proof (cases "splitWords U text")
  case Nil
  then show ?thesis by (simp add: toCamelCase_def)
next
  case (Cons w ws)
  obtain rest where "mapResult (capitalizeWord U) ws = Inr rest"
    using mapResult_returns [of "capitalizeWord U" ws] capitalizeWord_returns by blast
  with Cons show ?thesis by (simp add: toCamelCase_def elem0_def)
qed

lemma toPascalCase_returns: "\<exists>s. toPascalCase U text = Inr s"
proof -
  obtain ws where "mapResult (capitalizeWord U) (splitWords U text) = Inr ws"
    using mapResult_returns [of "capitalizeWord U"] capitalizeWord_returns by blast
  then show ?thesis by (simp add: toPascalCase_def)
qed

lemma toTitleCase_returns: "\<exists>s. toTitleCase U text = Inr s"
  unfolding toTitleCase_def replaceWords_def
  by (rule replaceSegments_returns) (rule capitalizeWord_returns)

lemma preserveWordTransform_returns:
  "\<exists>s. preserveWordTransform U text (\<lambda>w. Inr (f w)) = Inr s"
  unfolding preserveWordTransform_def replaceWords_def
  by (rule replaceSegments_returns) simp

text \<open>
  Claim C3 says that for the keys title, sentence, toggle and alternating the output does
  not depend on the preserve flag. It does: without the flag the input is trimmed first.
  On the text \<open>" a"\<close> the key toggle gives \<open>" A"\<close> with the flag and \<open>"A"\<close> without.
\<close>

theorem preserve_flag_counterexample:
  "computeOutput asciiTables (lit '' a'') True ''toggle''
   \<noteq> computeOutput asciiTables (lit '' a'') False ''toggle''"
  by (simp add: computeOutput_def lit_def trim_def trimStart_def trimEnd_def isWhiteSpace_def
      asciiTables_def asciiUpper_def asciiLower_def)

text \<open>
  Claim C3, amended. For every input text and each of the keys title, sentence, toggle and
  alternating, \<open>computeOutput\<close> without the preserve flag equals \<open>computeOutput\<close>
  with the flag on the trimmed text: for these keys the flag decides only whether the
  input is trimmed first.
\<close>

theorem preserve_flag_trims_first:
  "computeOutput U text False ''title'' = computeOutput U (trim text) True ''title''
   \<and> computeOutput U text False ''sentence'' = computeOutput U (trim text) True ''sentence''
   \<and> computeOutput U text False ''toggle'' = computeOutput U (trim text) True ''toggle''
   \<and> computeOutput U text False ''alternating'' = computeOutput U (trim text) True ''alternating''"
  by (simp add: computeOutput_def)

theorem preserve_flag_trims_first_witness:
  "computeOutput asciiTables (lit '' ab cd '') False ''alternating'' = Inr (lit ''aB cD'')
   \<and> computeOutput asciiTables (lit '' ab cd '') True ''alternating'' = Inr (lit '' aB cD '')"
proof -
  have t: "trim (lit '' ab cd '') = lit ''ab cd''"
    by (simp add: lit_def trim_def trimStart_def trimEnd_def isWhiteSpace_def)
  have "computeOutput asciiTables (lit '' ab cd '') False ''alternating''
        = computeOutput asciiTables (lit ''ab cd'') True ''alternating''"
    using preserve_flag_trims_first [of asciiTables "lit '' ab cd ''"] by (simp add: t)
  then show ?thesis
    by (simp add: computeOutput_def alternatingCase_def lit_def asciiTables_def
        asciiUpper_def asciiLower_def)
qed

lemma mapWords_Nil [simp]: "mapWords f [] = []"
  by (simp add: mapWords_def)

lemma mapWords_Cons [simp]: "mapWords f (seg # segs) = segmentText f seg @ mapWords f segs"
  by (simp add: mapWords_def)

lemma mapWords_append: "mapWords f (a @ b) = mapWords f a @ mapWords f b"
  by (simp add: mapWords_def)

lemma replaceSegments_pure: "replaceSegments (\<lambda>w. Inr (f w)) segs = Inr (mapWords f segs)"
proof (induction segs)
  case Nil
  show ?case by simp
next
  case (Cons seg segs)
  then show ?case by (cases seg) simp_all
qed

lemma flatten_wordSegments: "flatten (wordSegments U s) = s"
  unfolding flatten_def
  by (induction U s rule: wordSegments.induct) simp_all

lemma wordSegments_stop:
  "s = [] \<or> \<not> isAlnum U (hd s) \<Longrightarrow>
   (case wordSegments U s of [] \<Rightarrow> True | Gap g # _ \<Rightarrow> \<not> isAlnum U g | Word _ # _ \<Rightarrow> False)"
  by (cases s) (auto simp: isAlnum_def)

lemma wordTokenization_wordSegments: "wordTokenization U (wordSegments U s)"
proof (induction U s rule: wordSegments.induct)
  case (1 U)
  show ?case by simp
next
  case (2 U c cs)
  show ?case
  proof (cases "isLetter U c")
    case True
    have "list_all (isAlnum U) (takeWhile (isAlnum U) cs)"
      by (simp add: list_all_iff) (meson set_takeWhileD)
    with True 2 wordSegments_stop [OF dropWhile_stops [of "isAlnum U" cs]]
    show ?thesis by (simp add: startsWithLetter_def isAlnum_def)
  next
    case False
    with 2 show ?thesis by simp
  qed
qed

lemma wordTokenization_unique:
  "wordTokenization U segs \<Longrightarrow> wordSegments U (flatten segs) = segs"
proof (induction segs)
  case Nil
  show ?case by (simp add: flatten_def)
next
  case (Cons seg r)
  show ?case
  proof (cases seg)
    case (Gap c)
    with Cons show ?thesis by (simp add: flatten_def)
  next
    case (Word w)
    with Cons.prems obtain c w' where w: "w = c # w'" and c: "isLetter U c"
      and w': "list_all (isAlnum U) w'"
      by (cases w) (auto simp: startsWithLetter_def)
    from Cons.prems Word have stop: "flatten r = [] \<or> \<not> isAlnum U (hd (flatten r))"
      by (cases r) (auto simp: flatten_def split: segment.splits)
    from w' have tw: "takeWhile (isAlnum U) w' = w'" and dw: "dropWhile (isAlnum U) w' = []"
      by (simp_all add: list_all_iff)
    have "takeWhile (isAlnum U) (w' @ flatten r) = w'"
      using takeWhile_append_stop [of "flatten r" "isAlnum U" w'] stop tw by simp
    moreover have "dropWhile (isAlnum U) (w' @ flatten r) = flatten r"
      using dropWhile_append_stop [of "flatten r" "isAlnum U" w'] stop dw by simp
    moreover from Cons Word have "wordSegments U (flatten r) = r" by simp
    ultimately show ?thesis using Word w c by (simp add: flatten_def)
  qed
qed

lemma wordSegments_append:
  "t = [] \<or> \<not> isAlnum U (hd t) \<Longrightarrow>
   wordSegments U (s @ t) = wordSegments U s @ wordSegments U t"
proof (induction U s rule: wordSegments.induct)
  case (1 U)
  show ?case by simp
next
  case (2 U c cs)
  then show ?case
    using takeWhile_append_stop [of t "isAlnum U" cs] dropWhile_append_stop [of t "isAlnum U" cs]
    by simp
qed

lemma mapWords_stop:
  "s = [] \<or> \<not> isAlnum U (hd s) \<Longrightarrow>
   mapWords f (wordSegments U s) = [] \<or> \<not> isAlnum U (hd (mapWords f (wordSegments U s)))"
  by (cases s) (auto simp: isAlnum_def)

lemma concat_map_fixed: "\<forall>x\<in>set v. f x = [x] \<Longrightarrow> concat (map f v) = v"
  by (induction v) simp_all

lemma mapWords_fixed:
  assumes up: "\<And>s. list_all (isAlnum U) s \<Longrightarrow> up s = concat (map upc s)"
  shows "(\<forall>c\<in>set u. upc c = [c]) \<Longrightarrow> mapWords up (wordSegments U u) = u"
  using up
proof (induction U u rule: wordSegments.induct)
  case (1 U)
  show ?case by simp
next
  case (2 U c cs)
  show ?case
  proof (cases "isLetter U c")
    case True
    let ?w = "c # takeWhile (isAlnum U) cs"
    have alnum: "list_all (isAlnum U) ?w"
      using True by (auto simp: list_all_iff isAlnum_def dest: set_takeWhileD)
    have "set ?w \<subseteq> set (c # cs)"
      using set_takeWhileD by fastforce
    with "2.prems"(1) have "\<forall>x\<in>set ?w. upc x = [x]"
      by blast
    then have "concat (map upc ?w) = ?w"
      by (rule concat_map_fixed)
    with alnum "2.prems"(2) have w: "up ?w = ?w"
      by simp
    have "\<forall>x\<in>set (dropWhile (isAlnum U) cs). upc x = [x]"
      using "2.prems"(1) set_dropWhileD by fastforce
    with "2.IH"(1) True "2.prems"(2)
    have "mapWords up (wordSegments U (dropWhile (isAlnum U) cs)) = dropWhile (isAlnum U) cs"
      by simp
    with True w show ?thesis by simp
  next
    case False
    with 2 show ?thesis by simp
  qed
qed

lemma mapWords_idem:
  assumes up: "\<And>s. list_all (isAlnum U) s \<Longrightarrow> up s = concat (map upc s)"
    and fp: "\<And>c c'. c' \<in> set (upc c) \<Longrightarrow> upc c' = [c']"
  shows "mapWords up (wordSegments U (mapWords up (wordSegments U x)))
         = mapWords up (wordSegments U x)"
  using up
proof (induction U x rule: wordSegments.induct)
  case (1 U)
  show ?case by simp
next
  case (2 U c cs)
  show ?case
  proof (cases "isLetter U c")
    case True
    let ?w = "c # takeWhile (isAlnum U) cs"
    let ?rest = "dropWhile (isAlnum U) cs"
    let ?y = "mapWords up (wordSegments U ?rest)"
    have stop: "?y = [] \<or> \<not> isAlnum U (hd ?y)"
      by (rule mapWords_stop) (rule dropWhile_stops)
    have alnum: "list_all (isAlnum U) ?w"
      using True by (auto simp: list_all_iff isAlnum_def dest: set_takeWhileD)
    have "\<forall>x\<in>set (up ?w). upc x = [x]"
      using fp alnum "2.prems" by auto
    then have fixw: "mapWords up (wordSegments U (up ?w)) = up ?w"
      using "2.prems" by (intro mapWords_fixed [of U up upc]) auto
    have "mapWords up (wordSegments U (up ?w @ ?y))
          = mapWords up (wordSegments U (up ?w)) @ mapWords up (wordSegments U ?y)"
      using wordSegments_append [of ?y U "up ?w"] stop by (simp add: mapWords_append)
    also have "\<dots> = up ?w @ ?y"
      using fixw "2.IH"(1) True "2.prems" by simp
    finally show ?thesis using True by simp
  next
    case False
    with 2 show ?thesis by simp
  qed
qed

lemma alnumRuns_dropWhile_non: "alnumRuns U (dropWhile (\<lambda>x. \<not> isAlnum U x) s) = alnumRuns U s"
  by (induction s) simp_all

lemma alnumRuns_head:
  "(if takeWhile (isAlnum U) s = [] then [] else [takeWhile (isAlnum U) s])
   @ alnumRuns U (dropWhile (isAlnum U) s) = alnumRuns U s"
  by (cases s) simp_all

lemma filter_splitNonAlnum:
  "filter (\<lambda>w. w \<noteq> []) (splitNonAlnum U cur s)
   = (if cur @ takeWhile (isAlnum U) s = [] then [] else [cur @ takeWhile (isAlnum U) s])
     @ alnumRuns U (dropWhile (isAlnum U) s)"
proof (induction U cur s rule: splitNonAlnum.induct)
  case (1 U cur)
  show ?case by simp
next
  case (2 U cur c cs)
  show ?case
  proof (cases "isAlnum U c")
    case True
    with 2 show ?thesis by simp
  next
    case False
    let ?d = "dropWhile (\<lambda>x. \<not> isAlnum U x) cs"
    have d: "alnumRuns U ?d = alnumRuns U cs"
      by (rule alnumRuns_dropWhile_non)
    from 2 False d alnumRuns_head [of U ?d] show ?thesis by (simp split: if_splits)
  qed
qed

lemma splitWords_alnumRuns: "splitWords U text = alnumRuns U (trim text)"
  using alnumRuns_head [of U "trim text"]
  by (simp add: splitWords_def filter_splitNonAlnum split: if_splits)

lemma alnumRuns_append_non:
  "\<forall>x\<in>set t. \<not> isAlnum U x \<Longrightarrow> alnumRuns U (s @ t) = alnumRuns U s"
proof (induction U s rule: alnumRuns.induct)
  case (1 U)
  then show ?case by (induction t) simp_all
next
  case (2 U c cs)
  then have stop: "t = [] \<or> \<not> isAlnum U (hd t)"
    by (cases t) simp_all
  from 2 show ?case
    using takeWhile_append_stop [of t "isAlnum U" cs] dropWhile_append_stop [of t "isAlnum U" cs]
      stop by simp
qed

lemma alnumRuns_trim:
  assumes ws: "\<forall>c. isWhiteSpace c \<longrightarrow> \<not> isAlnum U c"
  shows "alnumRuns U (trim s) = alnumRuns U s"
proof -
  have start: "alnumRuns U (dropWhile isWhiteSpace v) = alnumRuns U v" for v
    using ws by (induction v) simp_all
  have "trimStart s = trimEnd (trimStart s) @ rev (takeWhile isWhiteSpace (rev (trimStart s)))"
    unfolding trimEnd_def
    by (metis rev_append rev_rev_ident takeWhile_dropWhile_id)
  moreover have "\<forall>x\<in>set (rev (takeWhile isWhiteSpace (rev (trimStart s)))). \<not> isAlnum U x"
    using ws by (auto dest: set_takeWhileD)
  ultimately have "alnumRuns U (trimStart s) = alnumRuns U (trimEnd (trimStart s))"
    using alnumRuns_append_non by metis
  then show ?thesis
    by (simp add: trim_def start [of s, folded trimStart_def])
qed

lemma alnumRuns_tokens: "\<forall>w\<in>set (alnumRuns U s). w \<noteq> [] \<and> list_all (isAlnum U) w"
proof (induction U s rule: alnumRuns.induct)
  case (1 U)
  show ?case by simp
next
  case (2 U c cs)
  have "list_all (isAlnum U) (takeWhile (isAlnum U) cs)"
    by (simp add: list_all_iff) (meson set_takeWhileD)
  with 2 show ?case by simp
qed

lemmas ascii_simps = lit_def asciiTables_def asciiUpper_def asciiLower_def isAlnum_def
  isWhiteSpace_def trim_def trimStart_def trimEnd_def

text \<open>
  Claim C5. With the preserve flag, the keys upper and lower convert exactly the word
  tokens of the text in place: for every tokenization of the text into word tokens (there
  is one, and only one) the output is the text with each word converted and every other
  character left where it is. Without the flag the output is the trimmed text converted
  as a whole.
\<close>

theorem upper_lower_word_tokens:
  "(\<forall>segs. wordTokenization U segs \<and> flatten segs = text \<longrightarrow>
       computeOutput U text True ''upper'' = Inr (mapWords (toLocaleUpperCase U) segs)
     \<and> computeOutput U text True ''lower'' = Inr (mapWords (toLocaleLowerCase U) segs))
   \<and> (\<exists>segs. wordTokenization U segs \<and> flatten segs = text)
   \<and> computeOutput U text False ''upper'' = Inr (toLocaleUpperCase U (trim text))
   \<and> computeOutput U text False ''lower'' = Inr (toLocaleLowerCase U (trim text))"
proof -
  have "computeOutput U text True ''upper'' = Inr (mapWords (toLocaleUpperCase U) segs)
      \<and> computeOutput U text True ''lower'' = Inr (mapWords (toLocaleLowerCase U) segs)"
    if "wordTokenization U segs \<and> flatten segs = text" for segs
  proof -
    from that have "wordSegments U text = segs"
      using wordTokenization_unique by blast
    then show ?thesis
      by (simp add: computeOutput_def preserveWordTransform_def replaceWords_def
          replaceSegments_pure)
  qed
  moreover have "\<exists>segs. wordTokenization U segs \<and> flatten segs = text"
    using wordTokenization_wordSegments flatten_wordSegments by blast
  moreover have "computeOutput U text False ''upper'' = Inr (toLocaleUpperCase U (trim text))"
    by (simp add: computeOutput_def)
  moreover have "computeOutput U text False ''lower'' = Inr (toLocaleLowerCase U (trim text))"
    by (simp add: computeOutput_def)
  ultimately show ?thesis by blast
qed

theorem upper_lower_word_tokens_witness:
  "computeOutput asciiTables (lit ''Hi, Bob 2nd!'') True ''upper'' = Inr (lit ''HI, BOB 2ND!'')
   \<and> computeOutput asciiTables (lit ''Hi, Bob 2nd!'') True ''lower'' = Inr (lit ''hi, bob 2nd!'')
   \<and> computeOutput asciiTables (lit ''  Hi  '') False ''lower'' = Inr (lit ''hi'')"
proof -
  let ?S = "[Word (lit ''Hi''), Gap 44, Gap 32, Word (lit ''Bob''), Gap 32, Gap 50,
             Word (lit ''nd''), Gap 33]"
  have h: "wordTokenization asciiTables ?S \<and> flatten ?S = lit ''Hi, Bob 2nd!''"
    by (simp add: flatten_def startsWithLetter_def ascii_simps)
  have "computeOutput asciiTables (lit ''Hi, Bob 2nd!'') True ''upper''
          = Inr (mapWords (toLocaleUpperCase asciiTables) ?S)
      \<and> computeOutput asciiTables (lit ''Hi, Bob 2nd!'') True ''lower''
          = Inr (mapWords (toLocaleLowerCase asciiTables) ?S)"
    using upper_lower_word_tokens [of asciiTables "lit ''Hi, Bob 2nd!''"] h by blast
  moreover have "computeOutput asciiTables (lit ''  Hi  '') False ''lower''
      = Inr (toLocaleLowerCase asciiTables (trim (lit ''  Hi  '')))"
    using upper_lower_word_tokens [of asciiTables "lit ''  Hi  ''"] by blast
  ultimately show ?thesis
    by (simp add: ascii_simps)
qed

text \<open>
  Claim C9. Applying upper with the preserve flag twice gives the same as applying it
  once: the first call returns a text \<open>y\<close>, and the call on \<open>y\<close> returns \<open>y\<close>.
  The case conversion of the runtime is a parameter; the property is proved for every
  conversion that, on words, converts each character on its own (\<open>upc\<close>) into
  characters that it leaves unchanged, as the upper-case mapping of Unicode does.
\<close>

theorem upper_preserve_idempotent:
  assumes "\<forall>s. list_all (isAlnum U) s \<longrightarrow> toLocaleUpperCase U s = concat (map upc s)"
    and "\<forall>c. \<forall>c'\<in>set (upc c). upc c' = [c']"
  shows "\<exists>y. computeOutput U x True ''upper'' = Inr y
             \<and> computeOutput U y True ''upper'' = Inr y"
proof -
  let ?y = "mapWords (toLocaleUpperCase U) (wordSegments U x)"
  have "computeOutput U x True ''upper'' = Inr ?y"
    by (simp add: computeOutput_def preserveWordTransform_def replaceWords_def
        replaceSegments_pure)
  moreover have "mapWords (toLocaleUpperCase U) (wordSegments U ?y) = ?y"
    using assms by (intro mapWords_idem [of U "toLocaleUpperCase U" upc]) auto
  then have "computeOutput U ?y True ''upper'' = Inr ?y"
    by (simp add: computeOutput_def preserveWordTransform_def replaceWords_def
        replaceSegments_pure)
  ultimately show ?thesis by blast
qed

theorem upper_preserve_idempotent_witness:
  "computeOutput asciiTables (lit ''Hi, Bob!'') True ''upper'' = Inr (lit ''HI, BOB!'')
   \<and> computeOutput asciiTables (lit ''HI, BOB!'') True ''upper'' = Inr (lit ''HI, BOB!'')"
proof -
  have "toLocaleUpperCase asciiTables s = concat (map (\<lambda>c. [asciiUpper c]) s)" for s
    by (induction s) (simp_all add: asciiTables_def)
  then have a: "\<forall>s. list_all (isAlnum asciiTables) s
      \<longrightarrow> toLocaleUpperCase asciiTables s = concat (map (\<lambda>c. [asciiUpper c]) s)"
    by blast
  have b: "\<forall>c. \<forall>c'\<in>set [asciiUpper c]. [asciiUpper c'] = [c']"
    by (auto simp: asciiUpper_def)
  obtain y where y: "computeOutput asciiTables (lit ''Hi, Bob!'') True ''upper'' = Inr y"
    and yy: "computeOutput asciiTables y True ''upper'' = Inr y"
    using upper_preserve_idempotent [of asciiTables "\<lambda>c. [asciiUpper c]" "lit ''Hi, Bob!''", OF a b]
    by blast
  have "computeOutput asciiTables (lit ''Hi, Bob!'') True ''upper'' = Inr (lit ''HI, BOB!'')"
    by (simp add: computeOutput_def preserveWordTransform_def replaceWords_def ascii_simps)
  with y yy show ?thesis by simp
qed

text \<open>
  Claim C6. For either value of the preserve flag, the keys snake, kebab and dot give the
  tokens obtained by splitting the text on the runs of non-alphanumeric characters, each
  in lower case, joined with \<open>_\<close>, \<open>-\<close> and \<open>.\<close>. The source trims the text first; this
  makes no difference since no white-space character is a letter or a digit, which is the
  hypothesis on the tables of the runtime.
\<close>

theorem delimited_tokens:
  assumes "\<forall>c. isWhiteSpace c \<longrightarrow> \<not> isAlnum U c"
  shows "computeOutput U text preserve ''snake''
           = Inr (join (lit ''_'') (map (toLocaleLowerCase U) (alnumRuns U text)))
       \<and> computeOutput U text preserve ''kebab''
           = Inr (join (lit ''-'') (map (toLocaleLowerCase U) (alnumRuns U text)))
       \<and> computeOutput U text preserve ''dot''
           = Inr (join (lit ''.'') (map (toLocaleLowerCase U) (alnumRuns U text)))"
  using alnumRuns_trim [OF assms, of "text"]
  by (simp add: computeOutput_def toDelimited_def splitWords_alnumRuns)

theorem delimited_tokens_witness:
  "computeOutput asciiTables (lit ''Hello, world!'') True ''snake'' = Inr (lit ''hello_world'')
   \<and> computeOutput asciiTables (lit ''Hello, world!'') False ''kebab'' = Inr (lit ''hello-world'')
   \<and> computeOutput asciiTables (lit ''Hello, world!'') True ''dot'' = Inr (lit ''hello.world'')"
proof -
  have h: "\<forall>c. isWhiteSpace c \<longrightarrow> \<not> isAlnum asciiTables c"
    by (auto simp: isWhiteSpace_def isAlnum_def asciiTables_def)
  have r: "alnumRuns asciiTables (lit ''Hello, world!'') = [lit ''Hello'', lit ''world'']"
    by (simp add: lit_def asciiTables_def isAlnum_def)
  show ?thesis
    using delimited_tokens [OF h, of "lit ''Hello, world!''" True]
      delimited_tokens [OF h, of "lit ''Hello, world!''" False]
    by (simp add: r) (simp add: lit_def asciiTables_def asciiLower_def)
qed

text \<open>
  Claim C7 says that every word token, also of the delimiter joins, starts with a letter.
  The tokens of \<open>splitWords\<close> need not: \<open>"2nd place"\<close> is split into \<open>"2nd"\<close> and
  \<open>"place"\<close>, and snake gives \<open>"2nd_place"\<close>.
\<close>

theorem digit_token_counterexample:
  "\<not> list_all (startsWithLetter asciiTables) (splitWords asciiTables (lit ''2nd place''))
   \<and> computeOutput asciiTables (lit ''2nd place'') True ''snake'' = Inr (lit ''2nd_place'')"
  by (simp add: startsWithLetter_def computeOutput_def toDelimited_def splitWords_def ascii_simps)

lemma join_empty_sep: "join [] xs = concat xs"
proof (induction xs)
  case Nil
  show ?case by simp
next
  case (Cons x xs)
  then show ?case by (cases xs) simp_all
qed

lemma capitalizeWord_pure: "capitalizeWord U w = Inr (capitalized U w)"
  by (cases "toLocaleLowerCase U w")
     (simp_all add: capitalizeWord_def capitalized_def elem0_def Let_def)

lemma mapResult_pure:
  assumes "\<And>x. f x = Inr (g x)"
  shows "mapResult f xs = Inr (map g xs)"
  by (induction xs) (simp_all add: assms)

lemma toTitleCase_pure:
  "toTitleCase U s = Inr (mapWords (capitalized U) (wordSegments U s))"
proof -
  have "capitalizeWord U = (\<lambda>w. Inr (capitalized U w))"
    by (rule ext) (rule capitalizeWord_pure)
  then show ?thesis
    by (simp add: toTitleCase_def replaceWords_def replaceSegments_pure)
qed

lemma toCamelCase_runs:
  "toCamelCase U s =
     Inr (case alnumRuns U (trim s) of
            [] \<Rightarrow> []
          | w0 # ws \<Rightarrow> toLocaleLowerCase U w0 @ concat (map (capitalized U) ws))"
proof (cases "alnumRuns U (trim s)")
  case Nil
  then show ?thesis
    by (simp add: toCamelCase_def splitWords_alnumRuns)
next
  case (Cons w0 ws)
  have "mapResult (capitalizeWord U) ws = Inr (map (capitalized U) ws)"
    by (rule mapResult_pure) (rule capitalizeWord_pure)
  with Cons show ?thesis
    by (simp add: toCamelCase_def splitWords_alnumRuns elem0_def join_empty_sep)
qed

lemma toPascalCase_runs:
  "toPascalCase U s = Inr (concat (map (capitalized U) (alnumRuns U (trim s))))"
proof -
  have "mapResult (capitalizeWord U) (alnumRuns U (trim s))
        = Inr (map (capitalized U) (alnumRuns U (trim s)))"
    by (rule mapResult_pure) (rule capitalizeWord_pure)
  then show ?thesis
    by (simp add: toPascalCase_def splitWords_alnumRuns join_empty_sep)
qed

text \<open>
  Claim C7, amended. The in-place transforms (\<open>preserveWordTransform\<close>, used by upper and
  lower with the preserve flag, and \<open>toTitleCase\<close>) work on the segments of
  \<open>wordSegments\<close>, which are a tokenization of the text into words that start with a
  letter, consist of letters and digits and cannot be extended. The delimiter joins
  (camel, pascal, snake, kebab, dot and space, for either value of the flag) work on the
  tokens of \<open>splitWords\<close>, which are the maximal runs of letters and digits of the
  trimmed text: non-empty, alphanumeric, and free to begin with a digit. The output of
  \<open>computeOutput\<close> for each of these keys is given in terms of those tokens.
\<close>

theorem word_tokens_of_the_transforms:
  "wordTokenization U (wordSegments U text) \<and> flatten (wordSegments U text) = text
   \<and> preserveWordTransform U text fn = replaceSegments fn (wordSegments U text)
   \<and> toTitleCase U text = replaceSegments (capitalizeWord U) (wordSegments U text)
   \<and> splitWords U text = alnumRuns U (trim text)
   \<and> list_all (\<lambda>w. w \<noteq> [] \<and> list_all (isAlnum U) w) (splitWords U text)
   \<and> toDelimited U text d = join d (map (toLocaleLowerCase U) (alnumRuns U (trim text)))
   \<and> toSpaceCase U text = join (lit '' '') (alnumRuns U (trim text))
   \<and> toCamelCase U text =
       Inr (case alnumRuns U (trim text) of
              [] \<Rightarrow> []
            | w0 # ws \<Rightarrow> toLocaleLowerCase U w0 @ concat (map (capitalized U) ws))
   \<and> toPascalCase U text = Inr (concat (map (capitalized U) (alnumRuns U (trim text))))
   \<and> computeOutput U text True ''upper''
       = Inr (mapWords (toLocaleUpperCase U) (wordSegments U text))
   \<and> computeOutput U text True ''lower''
       = Inr (mapWords (toLocaleLowerCase U) (wordSegments U text))
   \<and> computeOutput U text True ''title''
       = Inr (mapWords (capitalized U) (wordSegments U text))
   \<and> computeOutput U text False ''title''
       = Inr (mapWords (capitalized U) (wordSegments U (trim text)))
   \<and> computeOutput U text preserve ''camel'' =
       Inr (case alnumRuns U (trim text) of
              [] \<Rightarrow> []
            | w0 # ws \<Rightarrow> toLocaleLowerCase U w0 @ concat (map (capitalized U) ws))
   \<and> computeOutput U text preserve ''pascal''
       = Inr (concat (map (capitalized U) (alnumRuns U (trim text))))
   \<and> computeOutput U text preserve ''snake''
       = Inr (join (lit ''_'') (map (toLocaleLowerCase U) (alnumRuns U (trim text))))
   \<and> computeOutput U text preserve ''kebab''
       = Inr (join (lit ''-'') (map (toLocaleLowerCase U) (alnumRuns U (trim text))))
   \<and> computeOutput U text preserve ''dot''
       = Inr (join (lit ''.'') (map (toLocaleLowerCase U) (alnumRuns U (trim text))))
   \<and> computeOutput U text preserve ''space''
       = Inr (join (lit '' '') (alnumRuns U (trim text)))"
proof -
  have a: "wordTokenization U (wordSegments U text) \<and> flatten (wordSegments U text) = text
      \<and> preserveWordTransform U text fn = replaceSegments fn (wordSegments U text)
      \<and> toTitleCase U text = replaceSegments (capitalizeWord U) (wordSegments U text)
      \<and> splitWords U text = alnumRuns U (trim text)
      \<and> list_all (\<lambda>w. w \<noteq> [] \<and> list_all (isAlnum U) w) (splitWords U text)
      \<and> toDelimited U text d = join d (map (toLocaleLowerCase U) (alnumRuns U (trim text)))
      \<and> toSpaceCase U text = join (lit '' '') (alnumRuns U (trim text))"
    using alnumRuns_tokens [of U "trim text"]
    by (simp add: wordTokenization_wordSegments flatten_wordSegments preserveWordTransform_def
        toTitleCase_def replaceWords_def splitWords_alnumRuns list_all_iff toDelimited_def
        toSpaceCase_def)
  have b: "computeOutput U text True ''upper''
             = Inr (mapWords (toLocaleUpperCase U) (wordSegments U text))
      \<and> computeOutput U text True ''lower''
             = Inr (mapWords (toLocaleLowerCase U) (wordSegments U text))
      \<and> computeOutput U text True ''title''
             = Inr (mapWords (capitalized U) (wordSegments U text))
      \<and> computeOutput U text False ''title''
             = Inr (mapWords (capitalized U) (wordSegments U (trim text)))"
    by (simp add: computeOutput_def preserveWordTransform_def replaceWords_def
        replaceSegments_pure toTitleCase_pure)
  have c: "computeOutput U text preserve ''camel'' =
          Inr (case alnumRuns U (trim text) of
                 [] \<Rightarrow> []
               | w0 # ws \<Rightarrow> toLocaleLowerCase U w0 @ concat (map (capitalized U) ws))
      \<and> computeOutput U text preserve ''pascal''
             = Inr (concat (map (capitalized U) (alnumRuns U (trim text))))
      \<and> computeOutput U text preserve ''snake''
             = Inr (join (lit ''_'') (map (toLocaleLowerCase U) (alnumRuns U (trim text))))
      \<and> computeOutput U text preserve ''kebab''
             = Inr (join (lit ''-'') (map (toLocaleLowerCase U) (alnumRuns U (trim text))))
      \<and> computeOutput U text preserve ''dot''
             = Inr (join (lit ''.'') (map (toLocaleLowerCase U) (alnumRuns U (trim text))))
      \<and> computeOutput U text preserve ''space''
             = Inr (join (lit '' '') (alnumRuns U (trim text)))"
    by (simp add: computeOutput_def toDelimited_def toSpaceCase_def splitWords_alnumRuns
        toCamelCase_runs toPascalCase_runs)
  note e = toCamelCase_runs [of U "text"] toPascalCase_runs [of U "text"]
  from a b c e show ?thesis
    by (elim conjE) (intro conjI, assumption+)
qed

theorem word_tokens_of_the_transforms_witness:
  "wordSegments asciiTables (lit ''x1 2nd'')
     = [Word (lit ''x1''), Gap 32, Gap 50, Word (lit ''nd'')]
   \<and> splitWords asciiTables (lit ''x1 2nd'') = [lit ''x1'', lit ''2nd'']
   \<and> computeOutput asciiTables (lit ''2nd place'') True ''camel'' = Inr (lit ''2ndPlace'')
   \<and> computeOutput asciiTables (lit ''2nd place'') False ''pascal'' = Inr (lit ''2ndPlace'')
   \<and> computeOutput asciiTables (lit ''2nd place'') True ''title'' = Inr (lit ''2Nd Place'')"
proof -
  note fact1 = word_tokens_of_the_transforms [of asciiTables "lit ''x1 2nd''"]
  note fact2 = word_tokens_of_the_transforms [of asciiTables "lit ''2nd place''" _ _ True]
  note fact3 = word_tokens_of_the_transforms [of asciiTables "lit ''2nd place''" _ _ False]
  have r: "alnumRuns asciiTables (trim (lit ''2nd place'')) = [lit ''2nd'', lit ''place'']"
    by (simp add: ascii_simps)
  have s: "wordSegments asciiTables (lit ''2nd place'')
           = [Gap 50, Word (lit ''nd''), Gap 32, Word (lit ''place'')]"
    by (simp add: ascii_simps)
  have "wordTokenization asciiTables (wordSegments asciiTables (lit ''x1 2nd''))
      \<and> splitWords asciiTables (lit ''x1 2nd'') = alnumRuns asciiTables (trim (lit ''x1 2nd''))"
    using fact1 by blast
  then have a: "wordSegments asciiTables (lit ''x1 2nd'')
                  = [Word (lit ''x1''), Gap 32, Gap 50, Word (lit ''nd'')]
      \<and> splitWords asciiTables (lit ''x1 2nd'') = [lit ''x1'', lit ''2nd'']"
    by (simp add: ascii_simps)
  have "computeOutput asciiTables (lit ''2nd place'') True ''camel'' =
          Inr (case alnumRuns asciiTables (trim (lit ''2nd place'')) of
                 [] \<Rightarrow> []
               | w0 # ws \<Rightarrow> toLocaleLowerCase asciiTables w0
                            @ concat (map (capitalized asciiTables) ws))"
    using fact2 by blast
  then have b: "computeOutput asciiTables (lit ''2nd place'') True ''camel''
                = Inr (lit ''2ndPlace'')"
    unfolding r by (simp add: capitalized_def lit_def asciiTables_def asciiUpper_def asciiLower_def)
  have "computeOutput asciiTables (lit ''2nd place'') False ''pascal'' =
          Inr (concat (map (capitalized asciiTables)
                 (alnumRuns asciiTables (trim (lit ''2nd place'')))))"
    using fact3 by blast
  then have c: "computeOutput asciiTables (lit ''2nd place'') False ''pascal''
                = Inr (lit ''2ndPlace'')"
    unfolding r by (simp add: capitalized_def lit_def asciiTables_def asciiUpper_def asciiLower_def)
  have "computeOutput asciiTables (lit ''2nd place'') True ''title''
          = Inr (mapWords (capitalized asciiTables)
                  (wordSegments asciiTables (lit ''2nd place'')))"
    using fact2 by blast
  then have d: "computeOutput asciiTables (lit ''2nd place'') True ''title''
                = Inr (lit ''2Nd Place'')"
    unfolding s by (simp add: capitalized_def lit_def asciiTables_def asciiUpper_def asciiLower_def)
  from a b c d show ?thesis by blast
qed

text \<open>
  Claim C10. For every input text and either value of the preserve flag,
  \<open>computeOutput\<close> called with a key that is none of the twelve enumerated keys
  returns the input text unchanged: the dispatch falls through to its last line.
\<close>

theorem computeOutput_unknown_key:
  assumes "active \<notin> set actionKeys"
  shows "computeOutput U text preserve active = Inr text"
  using assms by (simp add: computeOutput_def actionKeys_def)

theorem computeOutput_unknown_key_witness:
  "''reverse'' \<notin> set actionKeys
   \<and> computeOutput asciiTables (lit ''Hi, Bob!'') True ''reverse'' = Inr (lit ''Hi, Bob!'')"
proof -
  have h: "''reverse'' \<notin> set actionKeys"
    by (simp add: actionKeys_def)
  show ?thesis
    using h computeOutput_unknown_key [OF h, of asciiTables "lit ''Hi, Bob!''" True]
    by simp
qed

section \<open>Properties of the signature builder\<close>

lemma replaceAll_char:
  "replaceAll [c] rep s = concat (map (\<lambda>x. if x = c then rep else [x]) s)"
  by (induction s) auto

lemma concat_map_concat_map:
  "concat (map f (concat (map g s))) = concat (map (\<lambda>x. concat (map f (g x))) s)"
  by (induction s) simp_all

lemma escapeHtml_charwise: "escapeHtml v = concat (map escapeChar v)"
proof -
  have "concat (map (\<lambda>x. if x = 39 then lit ''&#039;'' else [x])
          (concat (map (\<lambda>x. if x = 34 then lit ''&quot;'' else [x])
            (concat (map (\<lambda>x. if x = 62 then lit ''&gt;'' else [x])
              (concat (map (\<lambda>x. if x = 60 then lit ''&lt;'' else [x])
                (if c = 38 then lit ''&amp;'' else [c]))))))))
        = escapeChar c" for c :: cp
    by (simp add: escapeChar_def lit_def)
  then show ?thesis
    by (simp add: escapeHtml_def lit_def [of "''&''"] lit_def [of "''<''"] lit_def [of "''>''"]
        replaceAll_char concat_map_concat_map)
qed

lemma escapeChar_safe: "x \<in> set (escapeChar c) \<Longrightarrow> x \<noteq> 60 \<and> x \<noteq> 62 \<and> x \<noteq> 34 \<and> x \<noteq> 39"
  by (auto simp: escapeChar_def lit_def split: if_splits)

lemma escapeHtml_safe: "x \<in> set (escapeHtml v) \<Longrightarrow> x \<noteq> 60 \<and> x \<noteq> 62 \<and> x \<noteq> 34 \<and> x \<noteq> 39"
  using escapeChar_safe by (fastforce simp: escapeHtml_charwise)

lemma splitLines_nonempty: "splitLines s \<noteq> []"
  by (induction s) (auto split: list.splits)

lemma join_Cons_nonempty: "ls \<noteq> [] \<Longrightarrow> join d (l # ls) = l @ d @ join d ls"
  by (cases ls) simp_all

lemma legal_lines:
  "replaceAll (lit ''\<newline>'') (lit ''<br/>'') (escapeHtml s)
   = join (lit ''<br/>'') (map escapeHtml (splitLines s))"
proof -
  have nl: "lit ''\<newline>'' = [10]" by (simp add: lit_def)
  have step: "concat (map (\<lambda>x. if x = 10 then lit ''<br/>'' else [x]) (escapeChar c))
              = (if c = 10 then lit ''<br/>'' else escapeChar c)" for c
    by (simp add: escapeChar_def lit_def)
  have "concat (map (\<lambda>c. if c = 10 then lit ''<br/>'' else escapeChar c) s)
        = join (lit ''<br/>'') (map (\<lambda>l. concat (map escapeChar l)) (splitLines s))"
  proof (induction s)
    case Nil
    show ?case by simp
  next
    case (Cons c cs)
    obtain l ls where ls: "splitLines cs = l # ls"
      using splitLines_nonempty [of cs] by (cases "splitLines cs") auto
    show ?case
    proof (cases "c = 10")
      case True
      with Cons ls show ?thesis by (simp add: join_Cons_nonempty)
    next
      case False
      with Cons ls show ?thesis by (cases ls) simp_all
    qed
  qed
  then show ?thesis
    by (simp add: nl replaceAll_char escapeHtml_charwise [abs_def] concat_map_concat_map step)
qed

lemma render_Nil [simp]: "render esc [] = []"
  by (simp add: render_def)

lemma render_Cons [simp]: "render esc (p # ps) = renderPiece esc p @ render esc ps"
  by (simp add: render_def)

lemma render_append [simp]: "render esc (ps @ qs) = render esc ps @ render esc qs"
  by (simp add: render_def)

lemma lit_nonempty [simp]: "lit (c # s) \<noteq> []"
  by (simp add: lit_def)

lemma officeHtml_pieces:
  "row th (officeHtml th p) = render escapeHtml (rowLayout th (officeLayout th (present p)))"
  by (simp add: row_def officeHtml_def rowLayout_def officeLayout_def present_def)

lemma mobileHtml_pieces:
  "row th (mobileHtml th p) = render escapeHtml (rowLayout th (mobileLayout th (present p)))"
  by (simp add: row_def mobileHtml_def rowLayout_def mobileLayout_def present_def)

lemma emailHtml_pieces:
  "row th (emailHtml th p) = render escapeHtml (rowLayout th (emailLayout th (present p)))"
  by (simp add: row_def emailHtml_def rowLayout_def emailLayout_def present_def)

lemma webHtml_pieces:
  "row th (webHtml th w)
   = render escapeHtml
       (rowLayout th (webLayout th (if w = [] then None else Some (w, stripProtocol w))))"
  by (simp add: row_def webHtml_def rowLayout_def webLayout_def)

lemma addressHtml_pieces:
  "row th (addressHtml th p) = render escapeHtml (rowLayout th (addressLayout th (present p)))"
  by (simp add: row_def addressHtml_def rowLayout_def addressLayout_def present_def)

lemma socialsRow_pieces:
  "socialsRow SOCIAL socials = render escapeHtml (socialsLayout SOCIAL socials)"
proof -
  have "concat (map (socialCell SOCIAL) socials)
        = render escapeHtml (concat (map (socialCellLayout SOCIAL) socials))"
    by (induction socials) (auto simp: socialCell_def socialCellLayout_def)
  then show ?thesis
    by (simp add: socialsRow_def socialsLayout_def join_empty_sep)
qed

lemma headerBlock_pieces:
  "headerBlock th logo name job company
   = render escapeHtml
       (headerLayout th (present logo) (present name) (present job) (present company))"
  by (simp add: headerBlock_def headerLayout_def nameDiv_def nameLayout_def jobDiv_def
      jobLayout_def companyDiv_def companyLayout_def present_def)

lemma brLines_render:
  "render escapeHtml (brLines ls) = join (lit ''<br/>'') (map escapeHtml ls)"
  by (induction ls rule: brLines.induct) simp_all

lemma legalBlock_pieces:
  "legalBlock th l = render escapeHtml (legalLayout th (if l = [] then [] else splitLines l))"
  by (simp add: legalBlock_def legalLayout_def legal_lines brLines_render splitLines_nonempty)

lemma buildSignatureHTML_untrimmed:
  "buildSignatureHTML enc data opts
   = trim (lit ''\<newline>'' @ render escapeHtml (signaturePieces enc data opts) @ lit ''\<newline>'')"
  by (simp add: buildSignatureHTML_def signaturePieces_def signatureLayout_def Let_def
      officeHtml_pieces mobileHtml_pieces emailHtml_pieces webHtml_pieces addressHtml_pieces
      socialsRow_pieces headerBlock_pieces legalBlock_pieces)

lemma hd_lit_append: "hd (lit (c # s) @ x) = of_char c"
  by (simp add: lit_def)

lemma signatureLayout_frame:
  "render esc (signatureLayout th SOCIAL a b c d e f g h i j k) \<noteq> []
   \<and> hd (render esc (signatureLayout th SOCIAL a b c d e f g h i j k)) = 60
   \<and> last (render esc (signatureLayout th SOCIAL a b c d e f g h i j k)) = 62"
proof -
  have l: "last (lit ''</table>'') = 62"
    by (simp add: lit_def)
  show ?thesis
    by (simp add: signatureLayout_def hd_lit_append l)
qed

lemma canonicalize_eq: "(canonicalize a = canonicalize b) = (asciiLower a = asciiLower b)"
  by (auto simp: canonicalize_def asciiLower_def)

lemma matchLiteral_iff: "(matchLiteral p v \<noteq> None) = startsWithIgnoringCase p v"
  by (induction p v rule: matchLiteral.induct)
     (simp_all add: startsWithIgnoringCase_def canonicalize_eq)

lemma matchLiteral_append:
  "matchLiteral (p @ q) v = (case matchLiteral p v of None \<Rightarrow> None | Some r \<Rightarrow> matchLiteral q r)"
  by (induction p v rule: matchLiteral.induct) simp_all

lemma lit_append: "lit (a @ b) = lit a @ lit b"
  by (simp add: lit_def)

lemma matchHttp_iff:
  "(matchHttp v \<noteq> None)
   = (startsWithIgnoringCase (lit ''http://'') v \<or> startsWithIgnoringCase (lit ''https://'') v)"
proof -
  have a: "lit ''http://'' = lit ''http'' @ lit ''://''"
    by (simp add: lit_def)
  have b: "lit ''https://'' = lit ''http'' @ lit ''s'' @ lit ''://''"
    by (simp add: lit_def)
  show ?thesis
    unfolding matchLiteral_iff [symmetric] a b matchLiteral_append
    by (auto simp: matchHttp_def split: option.splits)
qed

lemma hasScheme_iff: "hasScheme v = (\<exists>p\<in>set knownSchemes. startsWithIgnoringCase p v)"
  unfolding hasScheme_def matchLiteral_iff matchHttp_iff knownSchemes_def
  by auto

lemma trim_Nil: "trim [] = []"
  by (simp add: trim_def trimStart_def trimEnd_def)

text \<open>
  Claim C4. \<open>normalizeUrl\<close> trims its argument; an empty result stays empty; a result
  that starts, ignoring case, with \<open>mailto:\<close>, \<open>tel:\<close>, \<open>http://\<close> or \<open>https://\<close> is
  returned as it is; any other gets \<open>https://\<close> in front. In particular
  \<open>example.com\<close> becomes \<open>https://example.com\<close>, \<open>https://x.com\<close> stays, and the
  empty string stays empty.
\<close>

theorem normalizeUrl_contract:
  "normalizeUrl raw =
     (if trim raw = [] then []
      else if (\<exists>p\<in>set knownSchemes. startsWithIgnoringCase p (trim raw)) then trim raw
      else lit ''https://'' @ trim raw)
   \<and> normalizeUrl (lit ''example.com'') = lit ''https://example.com''
   \<and> normalizeUrl (lit ''https://x.com'') = lit ''https://x.com''
   \<and> normalizeUrl [] = []"
proof -
  have "normalizeUrl (lit ''example.com'') = lit ''https://example.com''"
    by (simp add: normalizeUrl_def hasScheme_def matchHttp_def canonicalize_def ascii_simps)
  moreover have "normalizeUrl (lit ''https://x.com'') = lit ''https://x.com''"
    by (simp add: normalizeUrl_def hasScheme_def matchHttp_def canonicalize_def ascii_simps)
  moreover have "normalizeUrl [] = []"
    by (simp add: normalizeUrl_def trim_Nil)
  ultimately show ?thesis
    by (simp add: normalizeUrl_def hasScheme_iff Let_def)
qed

theorem normalizeUrl_contract_witness:
  "normalizeUrl (lit '' MAILTO:a@b.com  '') = lit ''MAILTO:a@b.com''
   \<and> normalizeUrl (lit ''  ftp.example.org'') = lit ''https://ftp.example.org''"
proof -
  have t1: "trim (lit '' MAILTO:a@b.com  '') = lit ''MAILTO:a@b.com''"
    by (simp add: ascii_simps)
  have t2: "trim (lit ''  ftp.example.org'') = lit ''ftp.example.org''"
    by (simp add: ascii_simps)
  have s1: "\<exists>p\<in>set knownSchemes. startsWithIgnoringCase p (lit ''MAILTO:a@b.com'')"
    by (simp add: knownSchemes_def startsWithIgnoringCase_def lit_def asciiLower_def)
  have s2: "\<not> (\<exists>p\<in>set knownSchemes. startsWithIgnoringCase p (lit ''ftp.example.org''))"
    by (simp add: knownSchemes_def startsWithIgnoringCase_def lit_def asciiLower_def)
  have e1: "normalizeUrl (lit '' MAILTO:a@b.com  '') =
     (if trim (lit '' MAILTO:a@b.com  '') = [] then []
      else if (\<exists>p\<in>set knownSchemes. startsWithIgnoringCase p (trim (lit '' MAILTO:a@b.com  '')))
      then trim (lit '' MAILTO:a@b.com  '')
      else lit ''https://'' @ trim (lit '' MAILTO:a@b.com  ''))"
    using normalizeUrl_contract [of "lit '' MAILTO:a@b.com  ''"] by (rule conjunct1)
  have e2: "normalizeUrl (lit ''  ftp.example.org'') =
     (if trim (lit ''  ftp.example.org'') = [] then []
      else if (\<exists>p\<in>set knownSchemes. startsWithIgnoringCase p (trim (lit ''  ftp.example.org'')))
      then trim (lit ''  ftp.example.org'')
      else lit ''https://'' @ trim (lit ''  ftp.example.org''))"
    using normalizeUrl_contract [of "lit ''  ftp.example.org''"] by (rule conjunct1)
  have j: "lit ''https://'' @ lit ''ftp.example.org'' = lit ''https://ftp.example.org''"
    by (simp add: lit_def)
  from e1 s1 have "normalizeUrl (lit '' MAILTO:a@b.com  '') = lit ''MAILTO:a@b.com''"
    unfolding t1 by (simp only: if_True if_False lit_nonempty)
  moreover from e2 s2 have "normalizeUrl (lit ''  ftp.example.org'') = lit ''https://ftp.example.org''"
    unfolding t2 by (simp only: if_True if_False lit_nonempty j)
  ultimately show ?thesis by (rule conjI)
qed

lemma trim_between_newlines:
  assumes "s \<noteq> []" "\<not> isWhiteSpace (hd s)" "\<not> isWhiteSpace (last s)"
  shows "trim (lit ''\<newline>'' @ s @ lit ''\<newline>'') = s"
proof -
  have nl: "lit ''\<newline>'' = [10]"
    by (simp add: lit_def)
  have ws: "isWhiteSpace 10"
    by (simp add: isWhiteSpace_def)
  have drop_front: "dropWhile isWhiteSpace (10 # s @ [10]) = s @ [10]"
    using ws assms(1,2) by (simp add: dropWhile_eq_self_iff)
  have "hd (rev s) = last s"
    using assms(1) by (simp add: hd_rev)
  then have "dropWhile isWhiteSpace (rev s) = rev s"
    using assms(3) by (simp add: dropWhile_eq_self_iff)
  then have drop_back: "dropWhile isWhiteSpace (rev (s @ [10])) = rev s"
    using ws by simp
  show ?thesis
    unfolding trim_def trimStart_def trimEnd_def nl
    using drop_front drop_back by simp
qed

lemma buildSignatureHTML_pieces:
  "buildSignatureHTML enc data opts = render escapeHtml (signaturePieces enc data opts)"
proof -
  have "render escapeHtml (signaturePieces enc data opts) \<noteq> []
     \<and> hd (render escapeHtml (signaturePieces enc data opts)) = 60
     \<and> last (render escapeHtml (signaturePieces enc data opts)) = 62"
    unfolding signaturePieces_def Let_def by (rule signatureLayout_frame)
  then have "trim (lit ''\<newline>'' @ render escapeHtml (signaturePieces enc data opts)
                  @ lit ''\<newline>'')
             = render escapeHtml (signaturePieces enc data opts)"
    by (intro trim_between_newlines) (simp_all add: isWhiteSpace_def)
  then show ?thesis
    by (simp only: buildSignatureHTML_untrimmed)
qed

lemma escapeChar_token: "escapedToken (escapeChar c)"
  by (simp add: escapedToken_def escapeChar_def entities_def plainChar_def)

text \<open>
  Claim C1. For every record and theme, every field value that \<open>buildSignatureHTML\<close>
  puts into the document passes through \<open>escapeHtml\<close>, also where it is the content of
  an \<^verbatim>\<open>href\<close> or \<^verbatim>\<open>src\<close> attribute: the document is the rendering of
  \<open>signaturePieces\<close>, in which the field values occur as \<open>Value\<close> pieces only and are
  escaped by \<open>render\<close>. \<open>escapeHtml\<close>, with its five replacements in the order of the
  source (\<^verbatim>\<open>&\<close> first), replaces each character on its own: its result is a sequence
  of entities and of characters other than the five, and contains none of
  \<^verbatim>\<open>< > " '\<close>.
\<close>

theorem field_values_escaped:
  "buildSignatureHTML enc data opts = render escapeHtml (signaturePieces enc data opts)
   \<and> escapeHtml v = concat (map escapeChar v)
   \<and> list_all escapedToken (map escapeChar v)
   \<and> list_all (\<lambda>x. x \<noteq> 60 \<and> x \<noteq> 62 \<and> x \<noteq> 34 \<and> x \<noteq> 39) (escapeHtml v)"
  using escapeHtml_safe [of _ v]
  by (simp add: buildSignatureHTML_pieces escapeHtml_charwise [symmetric] list_all_iff
      escapeChar_token)

lemma suffix_table:
  "suffix (lit ''</table>'') (render esc (signatureLayout th SOCIAL a b c d e f g h i j k))"
  unfolding signatureLayout_def render_append render_Cons render_Nil renderPiece.simps
    append_Nil2 append_assoc
  by (intro suffix_appendI) simp

lemma prefix_table:
  "prefix (lit ''<table'') (render esc (signatureLayout th SOCIAL a b c d e f g h i j k))"
proof -
  have "lit ''<table role=\"presentation\" cellpadding=\"0\" cellspacing=\"0\" border=\"0\" style=\"border-collapse:collapse; ''
        = lit ''<table'' @ lit '' role=\"presentation\" cellpadding=\"0\" cellspacing=\"0\" border=\"0\" style=\"border-collapse:collapse; ''"
    by (simp add: lit_def)
  then show ?thesis
    by (simp add: signatureLayout_def)
qed

text \<open>
  Claim C2. \<open>computeOutput\<close> returns a string for every text, flag and key and whatever
  the tables of the runtime are: the reads of the first element of an array, the only
  operations that could raise, are all behind the guards of the source.
  \<open>buildSignatureHTML\<close> has no operation that can raise; for every record and theme
  it returns a document that starts with \<^verbatim>\<open><table\<close> and ends with
  \<^verbatim>\<open></table>\<close>.
\<close>

theorem core_total:
  "(\<exists>s. computeOutput U text preserve active = Inr s)
   \<and> prefix (lit ''<table'') (buildSignatureHTML enc data opts)
   \<and> suffix (lit ''</table>'') (buildSignatureHTML enc data opts)"
  using toCamelCase_returns [of U "text"] toPascalCase_returns [of U "text"]
    toTitleCase_returns [of U "text"] toTitleCase_returns [of U "trim text"]
    preserveWordTransform_returns [of U "text" "toLocaleUpperCase U"]
    preserveWordTransform_returns [of U "text" "toLocaleLowerCase U"]
  by (simp add: computeOutput_def buildSignatureHTML_pieces signaturePieces_def Let_def
      prefix_table suffix_table)

theorem core_total_witness:
  "(\<exists>s. computeOutput asciiTables (lit ''hello world'') True ''camel'' = Inr s)
   \<and> prefix (lit ''<table'') (buildSignatureHTML (\<lambda>s. s) DEFAULTS \<lparr> theme = None \<rparr>)"
  using core_total [of asciiTables "lit ''hello world''" True "''camel''" "\<lambda>s. s" DEFAULTS
      "\<lparr> theme = None \<rparr>"]
  by blast

lemma countFrom_occurrences: "pat \<noteq> [] \<Longrightarrow> countFrom pat n s = n + occurrences pat s"
  by (induction s arbitrary: n) simp_all

lemma occurrences_countFrom: "occurrences (lit (c # p)) s = countFrom (lit (c # p)) 0 s"
  by (simp add: countFrom_occurrences)

lemma of_char_eq: "((of_char x :: nat) = of_char y) = (x = y)"
  by (metis char_of_char)

lemma scan_rules:
  "countFrom P n (lit (c # cs) @ R)
     = countFrom P (if prefix P (lit (c # cs) @ R) then Suc n else n) (lit cs @ R)"
  "countFrom P n (lit [] @ R) = countFrom P n R"
  "countFrom P n (lit (c # cs))
     = countFrom P (if prefix P (lit (c # cs)) then Suc n else n) (lit cs)"
  "countFrom P n (lit []) = n"
  "prefix (lit (x # xs)) (lit (y # ys) @ R) = (if x = y then prefix (lit xs) (lit ys @ R) else False)"
  "prefix (lit (x # xs)) (lit [] @ R) = prefix (lit (x # xs)) R"
  "prefix (lit (x # xs)) (lit (y # ys)) = (if x = y then prefix (lit xs) (lit ys) else False)"
  "prefix (lit (x # xs)) (lit []) = False"
  "prefix (lit []) s = True"
  by (simp_all add: lit_def of_char_eq)

lemma countFrom_cong: "n = m \<Longrightarrow> countFrom p n s = countFrom p m s"
  by simp

lemma prefix_cong: "prefix a b = prefix a b"
  by (rule refl)

lemma esc_alex:
  "escapeHtml (lit ''Alex Johnson'') = lit ''Alex Johnson''"
  "escapeHtml (lit ''a@b.com'') = lit ''a@b.com''"
  by (simp_all add: escapeHtml_charwise escapeChar_def lit_def)

lemmas alex_layout_defs = alexLayout_def signatureLayout_def headerLayout_def nameLayout_def
  jobLayout_def companyLayout_def rowLayout_def officeLayout_def mobileLayout_def emailLayout_def
  webLayout_def addressLayout_def socialsLayout_def legalLayout_def baseTd_def font_def
  black_def gray600_def gray500_def gray400_def esc_alex

lemma alex_html:
  "buildSignatureHTML enc alex opts
   = render escapeHtml (alexLayout (if theme opts = Some ''dark'' then ''dark'' else ''light''))"
proof -
  have n: "normalizeUrl [] = []"
    by (simp add: normalizeUrl_def trim_Nil)
  have a: "trim (lit ''Alex Johnson'') = lit ''Alex Johnson''"
    by (simp add: ascii_simps)
  have b: "trim (lit ''a@b.com'') = lit ''a@b.com''"
    by (simp add: ascii_simps)
  have j: "lit ''Alex'' @ lit '' '' @ lit ''Johnson'' = lit ''Alex Johnson''"
    by (simp add: lit_def)
  show ?thesis
    by (simp add: buildSignatureHTML_pieces signaturePieces_def alex_def DEFAULTS_def Let_def
        trim_Nil n a b j present_def alexLayout_def signatureLayout_def socialsLayout_def)
qed

lemma alex_name_light:
  \<open>occurrences (lit ''font-weight:700; color:#111827;">Alex Johnson</div>'')
     (render escapeHtml (alexLayout ''light'')) = 1\<close>
  apply (simp only: occurrences_countFrom)
  apply (simp add: alex_layout_defs del: countFrom.simps)
  apply (simp only: scan_rules char.inject simp_thms if_True if_False
      cong: countFrom_cong prefix_cong if_weak_cong)
  apply simp?
  done

lemma alex_name_dark:
  \<open>occurrences (lit ''font-weight:700; color:#f8fafc;">Alex Johnson</div>'')
     (render escapeHtml (alexLayout ''dark'')) = 1\<close>
  apply (simp only: occurrences_countFrom)
  apply (simp add: alex_layout_defs del: countFrom.simps)
  apply (simp only: scan_rules char.inject simp_thms if_True if_False
      cong: countFrom_cong prefix_cong if_weak_cong)
  apply simp?
  done

lemma alex_mail_light:
  \<open>occurrences (lit ''color:#4b5563;"><a href="mailto:a@b.com"'')
     (render escapeHtml (alexLayout ''light'')) = 1\<close>
  apply (simp only: occurrences_countFrom)
  apply (simp add: alex_layout_defs del: countFrom.simps)
  apply (simp only: scan_rules char.inject simp_thms if_True if_False
      cong: countFrom_cong prefix_cong if_weak_cong)
  apply simp?
  done

lemma alex_mail_dark:
  \<open>occurrences (lit ''color:#e5e7eb;"><a href="mailto:a@b.com"'')
     (render escapeHtml (alexLayout ''dark'')) = 1\<close>
  apply (simp only: occurrences_countFrom)
  apply (simp add: alex_layout_defs del: countFrom.simps)
  apply (simp only: scan_rules char.inject simp_thms if_True if_False
      cong: countFrom_cong prefix_cong if_weak_cong)
  apply simp?
  done

lemma alex_rows:
  \<open>occurrences (lit ''<td style="padding:2px 0;'') (render escapeHtml (alexLayout th)) = 1\<close>
  apply (simp only: occurrences_countFrom)
  apply (simp add: alex_layout_defs del: countFrom.simps)
  apply (simp only: scan_rules char.inject simp_thms if_True if_False
      cong: countFrom_cong prefix_cong if_weak_cong)
  apply simp?
  done

lemma alex_no_img:
  \<open>occurrences (lit ''<img'') (render escapeHtml (alexLayout th)) = 0\<close>
  apply (simp only: occurrences_countFrom)
  apply (simp add: alex_layout_defs del: countFrom.simps)
  apply (simp only: scan_rules char.inject simp_thms if_True if_False
      cong: countFrom_cong prefix_cong if_weak_cong)
  apply simp?
  done

lemma alex_tables:
  \<open>occurrences (lit ''<table'') (render escapeHtml (alexLayout th)) = 3\<close>
  apply (simp only: occurrences_countFrom)
  apply (simp add: alex_layout_defs del: countFrom.simps)
  apply (simp only: scan_rules char.inject simp_thms if_True if_False
      cong: countFrom_cong prefix_cong if_weak_cong)
  apply simp?
  done

lemma alex_trs:
  \<open>occurrences (lit ''<tr>'') (render escapeHtml (alexLayout th)) = 4\<close>
  apply (simp only: occurrences_countFrom)
  apply (simp add: alex_layout_defs del: countFrom.simps)
  apply (simp only: scan_rules char.inject simp_thms if_True if_False
      cong: countFrom_cong prefix_cong if_weak_cong)
  apply simp?
  done

lemma alex_no_legal:
  \<open>occurrences (lit ''max-width:420px'') (render escapeHtml (alexLayout th)) = 0\<close>
  apply (simp only: occurrences_countFrom)
  apply (simp add: alex_layout_defs del: countFrom.simps)
  apply (simp only: scan_rules char.inject simp_thms if_True if_False
      cong: countFrom_cong prefix_cong if_weak_cong)
  apply simp?
  done

text \<open>
  Claim C8. For the record with only first name Alex, last name Johnson and e-mail
  address a@b.com, and either theme, the document is the template with the name line and
  the e-mail row filled in and nothing else: it has the name header \<open>Alex Johnson\<close> once,
  one contact row, which holds the link to \<open>mailto:a@b.com\<close>, no image (neither a logo
  nor a social icon), three tables and four rows (the frame, the header, the contact
  table and its one row: no row of social icons and no legal row), and no legal block.
\<close>

theorem alex_scenario:
  \<open>let th = (if theme opts = Some ''dark'' then ''dark'' else ''light'');
       h = buildSignatureHTML enc alex opts
   in h = render escapeHtml (alexLayout th)
      \<and> occurrences (lit ''font-weight:700; color:'' @ black th @ lit '';">Alex Johnson</div>'') h = 1
      \<and> occurrences (lit ''<td style="padding:2px 0;'') h = 1
      \<and> occurrences (lit ''color:'' @ gray600 th @ lit '';"><a href="mailto:a@b.com"'') h = 1
      \<and> occurrences (lit ''<img'') h = 0
      \<and> occurrences (lit ''<table'') h = 3
      \<and> occurrences (lit ''<tr>'') h = 4
      \<and> occurrences (lit ''max-width:420px'') h = 0\<close>
proof -
  have nl: \<open>lit ''font-weight:700; color:'' @ black ''light'' @ lit '';">Alex Johnson</div>''
            = lit ''font-weight:700; color:#111827;">Alex Johnson</div>''\<close>
    by (simp add: black_def lit_def)
  have nd: \<open>lit ''font-weight:700; color:'' @ black ''dark'' @ lit '';">Alex Johnson</div>''
            = lit ''font-weight:700; color:#f8fafc;">Alex Johnson</div>''\<close>
    by (simp add: black_def lit_def)
  have ml: \<open>lit ''color:'' @ gray600 ''light'' @ lit '';"><a href="mailto:a@b.com"''
            = lit ''color:#4b5563;"><a href="mailto:a@b.com"''\<close>
    by (simp add: gray600_def lit_def)
  have md: \<open>lit ''color:'' @ gray600 ''dark'' @ lit '';"><a href="mailto:a@b.com"''
            = lit ''color:#e5e7eb;"><a href="mailto:a@b.com"''\<close>
    by (simp add: gray600_def lit_def)
  show ?thesis
    unfolding Let_def alex_html
    by (simp only: nl nd ml md alex_name_light alex_name_dark alex_mail_light alex_mail_dark
        alex_rows alex_no_img alex_tables alex_trs alex_no_legal if_True if_False simp_thms
        split: if_split)
qed

theorem alex_scenario_witness:
  \<open>occurrences (lit ''<tr>'') (buildSignatureHTML (\<lambda>s. s) alex \<lparr> theme = Some ''dark'' \<rparr>) = 4
   \<and> occurrences (lit ''<img'') (buildSignatureHTML (\<lambda>s. s) alex \<lparr> theme = None \<rparr>) = 0\<close>
proof -
  have a: "occurrences (lit ''<tr>'')
             (buildSignatureHTML (\<lambda>s. s) alex \<lparr> theme = Some ''dark'' \<rparr>) = 4"
    using alex_scenario [of "\<lparr> theme = Some ''dark'' \<rparr>" "\<lambda>s. s"]
    unfolding Let_def by (elim conjE)
  have b: "occurrences (lit ''<img'')
             (buildSignatureHTML (\<lambda>s. s) alex \<lparr> theme = None \<rparr>) = 0"
    using alex_scenario [of "\<lparr> theme = None \<rparr>" "\<lambda>s. s"]
    unfolding Let_def by (elim conjE)
  from a b show ?thesis by (rule conjI)
qed

theorem field_values_escaped_witness:
  \<open>occurrences (lit ''<b>'')
      (buildSignatureHTML (\<lambda>s. s) (DEFAULTS \<lparr> companyName := lit ''<b>R&D</b>'' \<rparr>)
         \<lparr> theme = None \<rparr>) = 0
   \<and> occurrences (lit ''&lt;b&gt;R&amp;D&lt;/b&gt;</div>'')
      (buildSignatureHTML (\<lambda>s. s) (DEFAULTS \<lparr> companyName := lit ''<b>R&D</b>'' \<rparr>)
         \<lparr> theme = None \<rparr>) = 1\<close>
proof -
  let ?d = "DEFAULTS \<lparr> companyName := lit ''<b>R&D</b>'' \<rparr>"
  let ?o = "\<lparr> theme = None \<rparr>"
  note fact = field_values_escaped [of "\<lambda>s. s" ?d ?o "lit ''<b>R&D</b>''"]
  have e: "escapeHtml (lit ''<b>R&D</b>'') = lit ''&lt;b&gt;R&amp;D&lt;/b&gt;''"
    using fact by (simp add: escapeChar_def lit_def)
  have h: "buildSignatureHTML (\<lambda>s. s) ?d ?o = render escapeHtml (signaturePieces (\<lambda>s. s) ?d ?o)"
    using fact by (rule conjunct1)
  have n: "normalizeUrl [] = []"
    by (simp add: normalizeUrl_def trim_Nil)
  have t: "trim (lit ''<b>R&D</b>'') = lit ''<b>R&D</b>''"
    by (simp add: ascii_simps)
  have p: "signaturePieces (\<lambda>s. s) ?d ?o
           = signatureLayout ''light'' (SOCIAL_LIGHT (\<lambda>s. s)) None None None
               (Some (lit ''<b>R&D</b>'')) None None None None None [] []"
    by (simp add: signaturePieces_def DEFAULTS_def Let_def trim_Nil n t present_def)
  have a: "occurrences (lit ''<b>'') (buildSignatureHTML (\<lambda>s. s) ?d ?o) = 0"
    unfolding h p
    apply (simp only: occurrences_countFrom)
    apply (simp add: alex_layout_defs e del: countFrom.simps)
    apply (simp only: scan_rules char.inject simp_thms if_True if_False
        cong: countFrom_cong prefix_cong if_weak_cong)
    apply simp?
    done
  have b: "occurrences (lit ''&lt;b&gt;R&amp;D&lt;/b&gt;</div>'')
             (buildSignatureHTML (\<lambda>s. s) ?d ?o) = 1"
    unfolding h p
    apply (simp only: occurrences_countFrom)
    apply (simp add: alex_layout_defs e del: countFrom.simps)
    apply (simp only: scan_rules char.inject simp_thms if_True if_False
        cong: countFrom_cong prefix_cong if_weak_cong)
    apply simp?
    done
  from a b show ?thesis by (rule conjI)
qed

end
